theory Spec2Isabelle
  imports Main "HOL-Library.Word"
begin

section \<open>Machine-level data model of the peephole pass\<close>

text \<open>
  The pass of \<^verbatim>\<open>XcalPeephole.cpp\<close> works on the machine IR of one function: an
  ordered list of basic blocks, each an ordered list of instructions plus a list of
  predecessor blocks.  A block pointer (\<^verbatim>\<open>MachineBasicBlock *\<close>) is the index of the
  block in layout order; a null pointer is \<open>None\<close>.
\<close>

type_synonym Register = nat
type_synonym int64_t = "64 word"
type_synonym BlockRef = nat

text \<open>
  Modelled from the spec: the identity of the designated zero register
  (\<^verbatim>\<open>RISCV::X0\<close>).  Its number comes from the generated register enumeration of the
  target, which is not among the sources; the value below stands for it, and no general
  proof unfolds it.
\<close>

definition X0 :: Register where
  "X0 = 1"

datatype MachineOperand =
    MO_Register Register
  | MO_Immediate int64_t
  | MO_MachineBasicBlock BlockRef
  | MO_Other nat

text \<open>
  The opcodes the pass names, and the remaining ones grouped by the instruction class the
  pass asks for.
\<close>

datatype Opcode =
    C_LI | ADDI | COPY | BEQ | BNE | C_BEQZ | C_BNEZ | PseudoRET
  | OtherCondBranch nat
  | UncondBranch nat
  | OtherReturn nat
  | OtherOpcode nat

record MachineInstr =
  opcode :: Opcode
  operands :: "MachineOperand list"
  debugLoc :: nat

record MachineBasicBlock =
  insts :: "MachineInstr list"
  predecessors :: "BlockRef list"

type_synonym MachineFunction = "MachineBasicBlock list"

text \<open>
  What the C++ leaves to assertions is a fault here: an operand index past the end, an
  accessor applied to an operand of another kind, a block pointer that is null or names no
  block of the function.
\<close>

datatype fault =
    OperandOutOfRange
  | NotARegister
  | NotAnImmediate
  | NotABlock
  | NullDereference
  | DanglingBlock

definition bindE :: "fault + 'a \<Rightarrow> ('a \<Rightarrow> fault + 'b) \<Rightarrow> fault + 'b" where
  "bindE m f = (case m of Inl e \<Rightarrow> Inl e | Inr x \<Rightarrow> f x)"

subsection \<open>Instruction and operand accessors\<close>

text \<open>
  Modelled from the spec: the classification of an instruction as conditional branch,
  unconditional branch, return or copy (\<^verbatim>\<open>isConditionalBranch\<close>,
  \<^verbatim>\<open>isUnconditionalBranch\<close>, \<^verbatim>\<open>isReturn\<close>, \<^verbatim>\<open>isCopy\<close>), which the C++ reads from
  the target's generated instruction descriptions.
\<close>

fun opcIsConditionalBranch :: "Opcode \<Rightarrow> bool" where
  "opcIsConditionalBranch BEQ = True"
| "opcIsConditionalBranch BNE = True"
| "opcIsConditionalBranch C_BEQZ = True"
| "opcIsConditionalBranch C_BNEZ = True"
| "opcIsConditionalBranch (OtherCondBranch _) = True"
| "opcIsConditionalBranch _ = False"

fun opcIsUnconditionalBranch :: "Opcode \<Rightarrow> bool" where
  "opcIsUnconditionalBranch (UncondBranch _) = True"
| "opcIsUnconditionalBranch _ = False"

fun opcIsReturn :: "Opcode \<Rightarrow> bool" where
  "opcIsReturn PseudoRET = True"
| "opcIsReturn (OtherReturn _) = True"
| "opcIsReturn _ = False"

definition isConditionalBranch :: "MachineInstr \<Rightarrow> bool" where
  "isConditionalBranch Inst = opcIsConditionalBranch (opcode Inst)"

definition isUnconditionalBranch :: "MachineInstr \<Rightarrow> bool" where
  "isUnconditionalBranch Inst = opcIsUnconditionalBranch (opcode Inst)"

definition isReturn :: "MachineInstr \<Rightarrow> bool" where
  "isReturn Inst = opcIsReturn (opcode Inst)"

definition isCopy :: "MachineInstr \<Rightarrow> bool" where
  "isCopy Inst = (opcode Inst = COPY)"

definition getOperand :: "MachineInstr \<Rightarrow> nat \<Rightarrow> fault + MachineOperand" where
  "getOperand Inst i =
     (if i < length (operands Inst) then Inr (operands Inst ! i) else Inl OperandOutOfRange)"

fun isReg :: "MachineOperand \<Rightarrow> bool" where
  "isReg (MO_Register _) = True"
| "isReg _ = False"

fun isImm :: "MachineOperand \<Rightarrow> bool" where
  "isImm (MO_Immediate _) = True"
| "isImm _ = False"

fun getReg :: "MachineOperand \<Rightarrow> fault + Register" where
  "getReg (MO_Register r) = Inr r"
| "getReg _ = Inl NotARegister"

fun getImm :: "MachineOperand \<Rightarrow> fault + int64_t" where
  "getImm (MO_Immediate i) = Inr i"
| "getImm _ = Inl NotAnImmediate"

fun getMBB :: "MachineOperand \<Rightarrow> fault + BlockRef" where
  "getMBB (MO_MachineBasicBlock b) = Inr b"
| "getMBB _ = Inl NotABlock"

text \<open>\<^verbatim>\<open>isRegX0\<close>: the operand is the register \<^verbatim>\<open>x0\<close>.\<close>

fun isRegX0 :: "MachineOperand \<Rightarrow> bool" where
  "isRegX0 (MO_Register r) = (r = X0)"
| "isRegX0 _ = False"

subsection \<open>Blocks of a function\<close>

definition getBlock :: "MachineFunction \<Rightarrow> BlockRef \<Rightarrow> fault + MachineBasicBlock" where
  "getBlock MF b = (if b < length MF then Inr (MF ! b) else Inl DanglingBlock)"

text \<open>
  Modelled from the spec: \<^verbatim>\<open>MachineBasicBlock::getFallThrough\<close>, which is not among
  the sources.  The fallthrough successor is the block immediately following in layout
  order, defined only when the block does not end in an unconditional transfer; there is
  none (a null pointer) otherwise.
\<close>

definition endsInUnconditionalTransfer :: "MachineBasicBlock \<Rightarrow> bool" where
  "endsInUnconditionalTransfer B =
     (insts B \<noteq> [] \<and> (isUnconditionalBranch (last (insts B)) \<or> isReturn (last (insts B))))"

definition getFallThrough :: "MachineFunction \<Rightarrow> BlockRef \<Rightarrow> BlockRef option" where
  "getFallThrough MF b =
     (if Suc b < length MF \<and> \<not> endsInUnconditionalTransfer (MF ! b)
      then Some (Suc b) else None)"

section \<open>The recognizers\<close>

text \<open>
  \<^verbatim>\<open>getLIOperands(Inst, Reg, Imm)\<close>.  The reference parameters \<^verbatim>\<open>Reg\<close> and
  \<^verbatim>\<open>Imm\<close> are passed in with the value the caller's variables hold and are returned
  with the value they hold afterwards, next to the boolean result.  The last \<^verbatim>\<open>if\<close> of
  the function, the copy from \<^verbatim>\<open>x0\<close>, and the final \<^verbatim>\<open>return false\<close> are
  \<open>getLIOperandsCopy\<close>: an \<^verbatim>\<open>ADDI\<close> that matched neither operand order falls through to
  it with \<^verbatim>\<open>Reg\<close> already assigned.
\<close>

definition getLIOperandsCopy ::
  "MachineInstr \<Rightarrow> Register \<Rightarrow> int64_t \<Rightarrow> fault + (bool \<times> Register \<times> int64_t)" where
  "getLIOperandsCopy Inst Reg Imm =
     (if isCopy Inst then
        bindE (getOperand Inst 1) (\<lambda>op1.
          if isRegX0 op1 then
            bindE (getOperand Inst 0) (\<lambda>op0. bindE (getReg op0) (\<lambda>r.
              Inr (True, r, 0)))
          else Inr (False, Reg, Imm))
      else Inr (False, Reg, Imm))"

definition getLIOperands ::
  "MachineInstr \<Rightarrow> Register \<Rightarrow> int64_t \<Rightarrow> fault + (bool \<times> Register \<times> int64_t)" where
  "getLIOperands Inst Reg Imm =
     (if opcode Inst = C_LI then
        bindE (getOperand Inst 0) (\<lambda>op0. bindE (getReg op0) (\<lambda>r.
        bindE (getOperand Inst 1) (\<lambda>op1. bindE (getImm op1) (\<lambda>i.
          Inr (True, r, i)))))
      else if opcode Inst = ADDI then
        bindE (getOperand Inst 1) (\<lambda>LHS.
        bindE (getOperand Inst 2) (\<lambda>RHS.
        bindE (getOperand Inst 0) (\<lambda>op0. bindE (getReg op0) (\<lambda>r.
          if isRegX0 LHS \<and> isImm RHS then
            bindE (getImm RHS) (\<lambda>i. Inr (True, r, i))
          else if isImm LHS \<and> isRegX0 RHS then
            bindE (getImm LHS) (\<lambda>i. Inr (True, r, i))
          else getLIOperandsCopy Inst r Imm))))
      else getLIOperandsCopy Inst Reg Imm)"

text \<open>
  The write to \<^verbatim>\<open>*Target\<close> that both branch families of \<^verbatim>\<open>getCondBranchOperands\<close>
  make.  \<open>Target\<close> is \<open>None\<close> when the caller passes a null \<^verbatim>\<open>Target\<close>, otherwise
  \<open>Some p\<close> with \<open>p\<close> the block pointer the caller's variable holds.  \<open>EqOpc\<close> is the
  opcode of the equality form of the family.
\<close>

definition resolveTarget ::
  "MachineFunction \<Rightarrow> BlockRef \<Rightarrow> MachineInstr \<Rightarrow> Opcode \<Rightarrow> BlockRef option option
     \<Rightarrow> fault + BlockRef option option" where
  "resolveTarget MF Parent Inst EqOpc Target =
     (case Target of
        None \<Rightarrow> Inr None
      | Some _ \<Rightarrow>
          if opcode Inst = EqOpc then
            bindE (getOperand Inst 2) (\<lambda>op2. bindE (getMBB op2) (\<lambda>t. Inr (Some (Some t))))
          else Inr (Some (getFallThrough MF Parent)))"

text \<open>
  \<^verbatim>\<open>getCondBranchOperands(Inst, Reg, Imm, Target)\<close>.  \<open>Parent\<close> is the block that
  holds the instruction (\<^verbatim>\<open>Inst.getParent()\<close>).  The result carries the boolean and the
  contents of the three out-parameters after the call.
\<close>

definition getCondBranchOperands ::
  "MachineFunction \<Rightarrow> BlockRef \<Rightarrow> MachineInstr \<Rightarrow> Register \<Rightarrow> int64_t
     \<Rightarrow> BlockRef option option
     \<Rightarrow> fault + (bool \<times> Register \<times> int64_t \<times> BlockRef option option)" where
  "getCondBranchOperands MF Parent Inst Reg Imm Target =
     (if opcode Inst = BEQ \<or> opcode Inst = BNE then
        bindE (getOperand Inst 0) (\<lambda>LHS.
        bindE (getOperand Inst 1) (\<lambda>RHS.
        bindE (resolveTarget MF Parent Inst BEQ Target) (\<lambda>Target'.
          if isReg LHS \<and> (isImm RHS \<or> isRegX0 RHS) then
            bindE (getReg LHS) (\<lambda>r.
            bindE (if isRegX0 RHS then Inr 0 else getImm RHS) (\<lambda>i.
              Inr (True, r, i, Target')))
          else if (isImm LHS \<or> isRegX0 LHS) \<and> isReg RHS then
            bindE (if isRegX0 LHS then Inr 0 else getImm LHS) (\<lambda>i.
            bindE (getReg RHS) (\<lambda>r.
              Inr (True, r, i, Target')))
          else Inr (False, Reg, Imm, Target'))))
      else if opcode Inst = C_BEQZ \<or> opcode Inst = C_BNEZ then
        bindE (getOperand Inst 0) (\<lambda>op0. bindE (getReg op0) (\<lambda>r.
        bindE (resolveTarget MF Parent Inst C_BEQZ Target) (\<lambda>Target'.
          Inr (True, r, 0, Target'))))
      else Inr (False, Reg, Imm, Target))"

section \<open>Transform A: a jump to a block that only returns\<close>

text \<open>
  \<^verbatim>\<open>BuildMI(&MBB, DL, TII->get(RISCV::PseudoRET))\<close> appends a fresh return with the
  given debug location; \<^verbatim>\<open>eraseFromParent\<close> removes the instruction at its position.
\<close>

definition BuildMI :: "MachineBasicBlock \<Rightarrow> nat \<Rightarrow> Opcode \<Rightarrow> MachineBasicBlock" where
  "BuildMI MBB DL Opc =
     MBB\<lparr>insts := insts MBB @ [\<lparr>opcode = Opc, operands = [], debugLoc = DL\<rparr>]\<rparr>"

definition eraseFromParent :: "MachineBasicBlock \<Rightarrow> nat \<Rightarrow> MachineBasicBlock" where
  "eraseFromParent MBB i = MBB\<lparr>insts := take i (insts MBB) @ drop (Suc i) (insts MBB)\<rparr>"

definition eliminateJumpToExitBlock ::
  "MachineFunction \<Rightarrow> BlockRef \<Rightarrow> fault + (bool \<times> MachineFunction)" where
  "eliminateJumpToExitBlock MF b =
     bindE (getBlock MF b) (\<lambda>MBB.
       if insts MBB = [] then Inr (False, MF)
       else
         let LastInst = last (insts MBB) in
         if isUnconditionalBranch LastInst then
           bindE (getOperand LastInst 0) (\<lambda>op0. bindE (getMBB op0) (\<lambda>t.
           bindE (getBlock MF t) (\<lambda>Target.
             if length (insts Target) = 1 \<and> isReturn (hd (insts Target)) then
               Inr (True,
                    MF[b := eraseFromParent (BuildMI MBB (debugLoc LastInst) PseudoRET)
                              (length (insts MBB) - 1)])
             else Inr (False, MF))))
         else Inr (False, MF))"

section \<open>Transform B: an assignment the branch test already established\<close>

text \<open>
  The loop over \<^verbatim>\<open>Target->predecessors()\<close>: \<open>Inr True\<close> when it runs to its end with
  \<^verbatim>\<open>Removable\<close> still set, \<open>Inr False\<close> when it leaves through a \<^verbatim>\<open>break\<close>.  The
  predecessor's branch is queried with a null \<^verbatim>\<open>Target\<close>; \<^verbatim>\<open>PReg\<close> and
  \<^verbatim>\<open>PImm\<close> are fresh in every round.
\<close>

fun checkPredecessors ::
  "MachineFunction \<Rightarrow> Register \<Rightarrow> int64_t \<Rightarrow> BlockRef list \<Rightarrow> fault + bool" where
  "checkPredecessors MF Dst Imm [] = Inr True"
| "checkPredecessors MF Dst Imm (p # ps) =
     (case getBlock MF p of
        Inl e \<Rightarrow> Inl e
      | Inr Pred \<Rightarrow>
          if insts Pred = [] then checkPredecessors MF Dst Imm ps
          else if \<not> isConditionalBranch (last (insts Pred)) then Inr False
          else
            (case getCondBranchOperands MF p (last (insts Pred)) 0 0 None of
               Inl e \<Rightarrow> Inl e
             | Inr (Res, PReg, PImm, _) \<Rightarrow>
                 if \<not> Res then Inr False
                 else if PReg = Dst \<and> PImm = Imm then checkPredecessors MF Dst Imm ps
                 else Inr False))"

text \<open>
  The part of \<^verbatim>\<open>eliminateAssignAfterBranchTest\<close> after the branch has been
  recognized: \<open>Target\<close> is what the recognizer left in the caller's block pointer.
  The locals handed to the recognizers by reference (\<^verbatim>\<open>Reg\<close>, \<^verbatim>\<open>Imm\<close>,
  \<^verbatim>\<open>Dst\<close>, \<^verbatim>\<open>LiImm\<close>, \<^verbatim>\<open>PReg\<close>, \<^verbatim>\<open>PImm\<close>) start as \<open>0\<close>; they are
  read only after a recognizer has returned true, which it does only after writing both.
  The call \<^verbatim>\<open>Target->getFallThrough()\<close> before the erase discards its result.
\<close>

definition removeHeadAssign ::
  "MachineFunction \<Rightarrow> Register \<Rightarrow> int64_t \<Rightarrow> BlockRef option
     \<Rightarrow> fault + (bool \<times> MachineFunction)" where
  "removeHeadAssign MF Reg Imm Target =
     (case Target of
        None \<Rightarrow> Inl NullDereference
      | Some t \<Rightarrow>
          bindE (getBlock MF t) (\<lambda>TargetBB.
            if length (insts TargetBB) = 0 then Inr (False, MF)
            else
              bindE (getLIOperands (hd (insts TargetBB)) 0 0) (\<lambda>(IsLI, Dst, LiImm).
                if IsLI then
                  if Dst = Reg \<and> LiImm = Imm then
                    bindE (checkPredecessors MF Dst Imm (predecessors TargetBB))
                      (\<lambda>Removable.
                         if \<not> Removable then Inr (False, MF)
                         else Inr (True, MF[t := eraseFromParent TargetBB 0]))
                  else Inr (False, MF)
                else Inr (False, MF))))"

definition eliminateAssignAfterBranchTest ::
  "MachineFunction \<Rightarrow> BlockRef \<Rightarrow> fault + (bool \<times> MachineFunction)" where
  "eliminateAssignAfterBranchTest MF b =
     bindE (getBlock MF b) (\<lambda>MBB.
       if insts MBB = [] then Inr (False, MF)
       else
         let LastInst = last (insts MBB) in
         if isConditionalBranch LastInst then
           bindE (getCondBranchOperands MF b LastInst 0 0 (Some None))
             (\<lambda>(Res, Reg, Imm, Target).
                if \<not> Res then Inr (False, MF)
                else removeHeadAssign MF Reg Imm (case Target of None \<Rightarrow> None | Some p \<Rightarrow> p))
         else Inr (False, MF))"

section \<open>The pass driver\<close>

text \<open>
  The loop of \<^verbatim>\<open>runOnMachineFunction\<close> over the blocks in layout order.  \<open>Changed\<close>
  is the flag as the loop carries it: assigned from Transform A, then or-ed with
  Transform B.
\<close>

fun runBlocks ::
  "MachineFunction \<Rightarrow> BlockRef list \<Rightarrow> bool \<Rightarrow> fault + (bool \<times> MachineFunction)" where
  "runBlocks MF [] Changed = Inr (Changed, MF)"
| "runBlocks MF (b # bs) Changed =
     (case eliminateJumpToExitBlock MF b of
        Inl e \<Rightarrow> Inl e
      | Inr (ChangedA, MF1) \<Rightarrow>
          (case eliminateAssignAfterBranchTest MF1 b of
             Inl e \<Rightarrow> Inl e
           | Inr (ChangedB, MF2) \<Rightarrow> runBlocks MF2 bs (ChangedA \<or> ChangedB)))"

definition runOnMachineFunction :: "MachineFunction \<Rightarrow> fault + (bool \<times> MachineFunction)" where
  "runOnMachineFunction MF = runBlocks MF [0..<length MF] False"

section \<open>Example functions\<close>

definition mkInst :: "Opcode \<Rightarrow> MachineOperand list \<Rightarrow> nat \<Rightarrow> MachineInstr" where
  "mkInst Opc Ops DL = \<lparr>opcode = Opc, operands = Ops, debugLoc = DL\<rparr>"

definition mkBlock :: "MachineInstr list \<Rightarrow> BlockRef list \<Rightarrow> MachineBasicBlock" where
  "mkBlock Is Ps = \<lparr>insts = Is, predecessors = Ps\<rparr>"

text \<open>A jump to a block that only returns: \<^verbatim>\<open>bb0: j bb1\<close>, \<^verbatim>\<open>bb1: ret\<close>.\<close>

definition jumpToRetFn :: MachineFunction where
  "jumpToRetFn =
     [mkBlock [mkInst (UncondBranch 0) [MO_MachineBasicBlock 1] 7] [],
      mkBlock [mkInst PseudoRET [] 9] [0]]"

text \<open>
  The shape of the comment above \<^verbatim>\<open>eliminateAssignAfterBranchTest\<close>:
  \<^verbatim>\<open>bb0: beq x10, 5, bb2\<close>, \<^verbatim>\<open>bb1: ret\<close>, \<^verbatim>\<open>bb2: li x10, 5; ret\<close>.
\<close>

definition branchTestFn :: MachineFunction where
  "branchTestFn =
     [mkBlock [mkInst BEQ [MO_Register 10, MO_Immediate 5, MO_MachineBasicBlock 2] 0] [],
      mkBlock [mkInst PseudoRET [] 0] [0],
      mkBlock [mkInst C_LI [MO_Register 10, MO_Immediate 5] 0, mkInst PseudoRET [] 0] [0]]"

text \<open>
  The same with a second way into \<^verbatim>\<open>bb2\<close> that tests nothing:
  \<^verbatim>\<open>bb0: beq x10, 5, bb2\<close>, \<^verbatim>\<open>bb1: j bb2\<close>, \<^verbatim>\<open>bb2: li x10, 5; ret\<close>.
\<close>

definition jumpPredFn :: MachineFunction where
  "jumpPredFn =
     [mkBlock [mkInst BEQ [MO_Register 10, MO_Immediate 5, MO_MachineBasicBlock 2] 0] [],
      mkBlock [mkInst (UncondBranch 0) [MO_MachineBasicBlock 2] 0] [0],
      mkBlock [mkInst C_LI [MO_Register 10, MO_Immediate 5] 0, mkInst PseudoRET [] 0] [0, 1]]"

text \<open>
  The fallthrough of the branch is an empty block that runs on into the target:
  \<^verbatim>\<open>bb0: beq x10, 5, bb2\<close>, \<^verbatim>\<open>bb1:\<close> (empty), \<^verbatim>\<open>bb2: li x10, 5; ret\<close>.
\<close>

definition emptyPredFn :: MachineFunction where
  "emptyPredFn =
     [mkBlock [mkInst BEQ [MO_Register 10, MO_Immediate 5, MO_MachineBasicBlock 2] 0] [],
      mkBlock [] [0],
      mkBlock [mkInst C_LI [MO_Register 10, MO_Immediate 5] 0, mkInst PseudoRET [] 0] [0, 1]]"

text \<open>
  A second predecessor enters the target when the register differs from the constant:
  \<^verbatim>\<open>bb0: beq x10, 5, bb3\<close>, \<^verbatim>\<open>bb1: bne x10, 5, bb3\<close>, \<^verbatim>\<open>bb2: ret\<close>,
  \<^verbatim>\<open>bb3: li x10, 5; ret\<close>.
\<close>

definition wrongEdgeFn :: MachineFunction where
  "wrongEdgeFn =
     [mkBlock [mkInst BEQ [MO_Register 10, MO_Immediate 5, MO_MachineBasicBlock 3] 0] [],
      mkBlock [mkInst BNE [MO_Register 10, MO_Immediate 5, MO_MachineBasicBlock 3] 0] [0],
      mkBlock [mkInst PseudoRET [] 0] [1],
      mkBlock [mkInst C_LI [MO_Register 10, MO_Immediate 5] 0, mkInst PseudoRET [] 0] [0, 1]]"

text \<open>The last block of the function ends in an inequality branch: \<^verbatim>\<open>bb0: bne x10, 5, bb0\<close>.\<close>

definition bneLastFn :: MachineFunction where
  "bneLastFn =
     [mkBlock [mkInst BNE [MO_Register 10, MO_Immediate 5, MO_MachineBasicBlock 0] 0] [0]]"

text \<open>
  Both predecessors test the register against \<^verbatim>\<open>x0\<close>, but the second one reaches the
  target by falling through, that is when the register is not zero:
  \<^verbatim>\<open>bb0: beq x10, x0, bb2\<close>, \<^verbatim>\<open>bb1: beq x10, x0, bb3\<close>,
  \<^verbatim>\<open>bb2: copy x10 <- x0; ret\<close>, \<^verbatim>\<open>bb3: ret\<close>.
\<close>

definition fallIntoTargetFn :: MachineFunction where
  "fallIntoTargetFn =
     [mkBlock [mkInst BEQ [MO_Register 10, MO_Register X0, MO_MachineBasicBlock 2] 0] [],
      mkBlock [mkInst BEQ [MO_Register 10, MO_Register X0, MO_MachineBasicBlock 3] 0] [0],
      mkBlock [mkInst COPY [MO_Register 10, MO_Register X0] 0, mkInst PseudoRET [] 0] [0, 1],
      mkBlock [mkInst PseudoRET [] 0] [1]]"

text \<open>
  An inequality branch on two registers, which the recognizer rejects, in a block with a
  fallthrough (\<^verbatim>\<open>bb0: bne x10, x11, bb0\<close>, \<^verbatim>\<open>bb1: ret\<close>) and in the last block
  of a function (\<^verbatim>\<open>bb0: bne x10, x11, bb0\<close>).
\<close>

definition bneRegsFn :: MachineFunction where
  "bneRegsFn =
     [mkBlock [mkInst BNE [MO_Register 10, MO_Register 11, MO_MachineBasicBlock 0] 0] [0],
      mkBlock [mkInst PseudoRET [] 0] [0]]"

definition bneRegsLastFn :: MachineFunction where
  "bneRegsLastFn =
     [mkBlock [mkInst BNE [MO_Register 10, MO_Register 11, MO_MachineBasicBlock 0] 0] [0]]"

section \<open>The predecessor test, as a predicate\<close>

text \<open>
  What one round of the loop in \<^verbatim>\<open>eliminateAssignAfterBranchTest\<close> accepts: the
  predecessor is skipped when it is empty; otherwise its last instruction is a conditional
  branch on which the recognizer, called with a null \<^verbatim>\<open>Target\<close>, succeeds with the
  register and constant of the assignment.
\<close>

definition predecessorAccepts ::
  "MachineFunction \<Rightarrow> Register \<Rightarrow> int64_t \<Rightarrow> BlockRef \<Rightarrow> bool" where
  "predecessorAccepts MF Dst Imm p =
     (p < length MF \<and>
      (insts (MF ! p) = [] \<or>
       (isConditionalBranch (last (insts (MF ! p))) \<and>
        getCondBranchOperands MF p (last (insts (MF ! p))) 0 0 None
          = Inr (True, Dst, Imm, None))))"

text \<open>
  The predecessor condition in the words of the spec (section 4.4), for comparison: the
  predecessor is non-empty, its last instruction is a conditional branch the recognizer
  accepts, and the recognizer resolves the branch's "equal" outcome to the target block
  \<open>t\<close> with the register and constant of the assignment.
\<close>

definition specPredecessorProof ::
  "MachineFunction \<Rightarrow> Register \<Rightarrow> int64_t \<Rightarrow> BlockRef \<Rightarrow> BlockRef \<Rightarrow> bool" where
  "specPredecessorProof MF Dst Imm t p =
     (p < length MF \<and> insts (MF ! p) \<noteq> [] \<and>
      isConditionalBranch (last (insts (MF ! p))) \<and>
      getCondBranchOperands MF p (last (insts (MF ! p))) 0 0 (Some None)
        = Inr (True, Dst, Imm, Some (Some t)))"

section \<open>Basic facts about faults and accessors\<close>

lemma bindE_Inl [simp]: "bindE (Inl e) f = Inl e"
  by (simp add: bindE_def)

lemma bindE_Inr [simp]: "bindE (Inr x) f = f x"
  by (simp add: bindE_def)

lemma bindE_eq_Inr: "bindE m f = Inr y \<longleftrightarrow> (\<exists>x. m = Inr x \<and> f x = Inr y)"
  by (cases m) simp_all

lemma bindE_eq_Inl: "bindE m f = Inl e \<longleftrightarrow> (m = Inl e \<or> (\<exists>x. m = Inr x \<and> f x = Inl e))"
  by (cases m) simp_all

lemma getReg_eq_Inr: "getReg op = Inr r \<longleftrightarrow> op = MO_Register r"
  by (cases op) auto

lemma getImm_eq_Inr: "getImm op = Inr i \<longleftrightarrow> op = MO_Immediate i"
  by (cases op) auto

lemma getMBB_eq_Inr: "getMBB op = Inr t \<longleftrightarrow> op = MO_MachineBasicBlock t"
  by (cases op) auto

lemma getLIOperandsCopy_False:
  "getLIOperandsCopy Inst Reg Imm = Inr (False, r', i') \<Longrightarrow> r' = Reg \<and> i' = Imm"
  by (auto simp: getLIOperandsCopy_def bindE_eq_Inr split: if_splits)

section \<open>The constant-assignment recognizer\<close>

lemma getOperand_eq_Inr: "getOperand Inst n = Inr x \<longleftrightarrow> n < length (operands Inst) \<and> operands Inst ! n = x"
  by (auto simp: getOperand_def)

lemma isRegX0_iff: "isRegX0 x \<longleftrightarrow> x = MO_Register X0"
  by (cases x) auto

lemma isImm_iff: "isImm x \<longleftrightarrow> (\<exists>i. x = MO_Immediate i)"
  by (cases x) auto

lemma two_operands:
  "Suc 0 < length xs \<and> xs ! 0 = a \<and> xs ! Suc 0 = b \<longleftrightarrow> (\<exists>rest. xs = a # b # rest)"
  by (cases xs; cases "tl xs") auto

lemma getLIOperands_C_LI:
  "opcode Inst = C_LI \<Longrightarrow>
   getLIOperands Inst Reg Imm = Inr (ok, R, C) \<longleftrightarrow>
     ok \<and> (\<exists>rest. operands Inst = MO_Register R # MO_Immediate C # rest)"
  by (auto simp: getLIOperands_def bindE_eq_Inr getReg_eq_Inr getImm_eq_Inr getOperand_eq_Inr
        two_operands [symmetric])

lemma getLIOperandsCopy_result:
  "getLIOperandsCopy Inst Reg Imm = Inr (ok, R, C) \<longleftrightarrow>
     (if opcode Inst = COPY then
        (\<exists>d s rest. operands Inst = d # s # rest \<and>
           (if s = MO_Register X0 then ok \<and> d = MO_Register R \<and> C = 0
            else \<not> ok \<and> R = Reg \<and> C = Imm))
      else \<not> ok \<and> R = Reg \<and> C = Imm)"
  unfolding getLIOperandsCopy_def isCopy_def
  by (cases "operands Inst"; cases "tl (operands Inst)")
     (auto simp: bindE_eq_Inr getReg_eq_Inr getOperand_def isRegX0_iff)

lemma getLIOperands_ADDI:
  "opcode Inst = ADDI \<Longrightarrow>
   getLIOperands Inst Reg Imm = Inr (ok, R, C) \<longleftrightarrow>
     (\<exists>a b rest. operands Inst = MO_Register R # a # b # rest \<and>
        (if (a = MO_Register X0 \<and> isImm b) then ok \<and> b = MO_Immediate C
         else if (isImm a \<and> b = MO_Register X0) then ok \<and> a = MO_Immediate C
         else \<not> ok \<and> C = Imm))"
  unfolding getLIOperands_def
  by (cases "operands Inst"; cases "tl (operands Inst)"; cases "tl (tl (operands Inst))")
     (auto simp: bindE_eq_Inr getReg_eq_Inr getImm_eq_Inr getOperand_def isRegX0_iff
        getLIOperandsCopy_result eval_nat_numeral isImm_iff)

lemma getLIOperands_other:
  "opcode Inst \<noteq> C_LI \<Longrightarrow> opcode Inst \<noteq> ADDI \<Longrightarrow>
   getLIOperands Inst Reg Imm = getLIOperandsCopy Inst Reg Imm"
  by (simp add: getLIOperands_def)

text \<open>
  Claim C4.  For every register \<open>R\<close> and constant \<open>C\<close>, \<^verbatim>\<open>getLIOperands\<close> reports a
  match with \<open>(R, C)\<close> on each of the forms: \<^verbatim>\<open>C_LI\<close> with destination \<open>R\<close> and
  immediate \<open>C\<close>; \<^verbatim>\<open>ADDI\<close> with destination \<open>R\<close>, the register \<^verbatim>\<open>x0\<close> as one
  source and the immediate \<open>C\<close> as the other, in either order; and a copy into \<open>R\<close> from
  \<^verbatim>\<open>x0\<close>, where the constant is \<open>0\<close>.  Operands after the ones read (\<open>rest\<close>)
  play no part.  These are the only matches: the call reports \<open>(R, C)\<close> exactly when the
  instruction has one of the four shapes.  Everything else is not recognized: an
  instruction of any other opcode (both out-parameters keep their values), an \<^verbatim>\<open>ADDI\<close>
  whose sources are not \<^verbatim>\<open>x0\<close> and an immediate (such as \<^verbatim>\<open>addi x10, x11, 5\<close>), and
  a copy whose source is not \<^verbatim>\<open>x0\<close> (such as \<^verbatim>\<open>copy x10 <- x11\<close>); and the call
  reports no match only on these.
\<close>

theorem getLIOperands_forms:
  "getLIOperands \<lparr>opcode = C_LI, operands = MO_Register R # MO_Immediate C # rest, debugLoc = d\<rparr>
       Reg Imm = Inr (True, R, C)
   \<and> getLIOperands \<lparr>opcode = ADDI,
         operands = MO_Register R # MO_Register X0 # MO_Immediate C # rest, debugLoc = d\<rparr>
       Reg Imm = Inr (True, R, C)
   \<and> getLIOperands \<lparr>opcode = ADDI,
         operands = MO_Register R # MO_Immediate C # MO_Register X0 # rest, debugLoc = d\<rparr>
       Reg Imm = Inr (True, R, C)
   \<and> getLIOperands \<lparr>opcode = COPY, operands = MO_Register R # MO_Register X0 # rest, debugLoc = d\<rparr>
       Reg Imm = Inr (True, R, 0)
   \<and> (opcode Inst \<noteq> C_LI \<and> opcode Inst \<noteq> ADDI \<and> opcode Inst \<noteq> COPY
        \<longrightarrow> getLIOperands Inst Reg Imm = Inr (False, Reg, Imm))
   \<and> (getLIOperands Inst Reg Imm = Inr (True, R, C) \<longleftrightarrow>
        (opcode Inst = C_LI \<and> (\<exists>xs. operands Inst = MO_Register R # MO_Immediate C # xs))
        \<or> (opcode Inst = ADDI \<and>
             (\<exists>xs. operands Inst = MO_Register R # MO_Register X0 # MO_Immediate C # xs))
        \<or> (opcode Inst = ADDI \<and>
             (\<exists>xs. operands Inst = MO_Register R # MO_Immediate C # MO_Register X0 # xs))
        \<or> (opcode Inst = COPY \<and> C = 0 \<and>
             (\<exists>xs. operands Inst = MO_Register R # MO_Register X0 # xs)))
   \<and> (getLIOperands Inst Reg Imm = Inr (False, R, C) \<longleftrightarrow>
        (opcode Inst = ADDI \<and> C = Imm \<and>
           (\<exists>x y xs. operands Inst = MO_Register R # x # y # xs
              \<and> \<not> (x = MO_Register X0 \<and> isImm y) \<and> \<not> (isImm x \<and> y = MO_Register X0)))
        \<or> (opcode Inst = COPY \<and> R = Reg \<and> C = Imm \<and>
             (\<exists>x y xs. operands Inst = x # y # xs \<and> y \<noteq> MO_Register X0))
        \<or> (opcode Inst \<noteq> C_LI \<and> opcode Inst \<noteq> ADDI \<and> opcode Inst \<noteq> COPY
             \<and> R = Reg \<and> C = Imm))
   \<and> (opcode Inst = ADDI \<and> operands Inst = MO_Register R # a # b # rest
        \<and> \<not> (a = MO_Register X0 \<and> isImm b) \<and> \<not> (isImm a \<and> b = MO_Register X0)
        \<longrightarrow> getLIOperands Inst Reg Imm = Inr (False, R, Imm))
   \<and> (opcode Inst = COPY \<and> operands Inst = dst # src # rest \<and> src \<noteq> MO_Register X0
        \<longrightarrow> getLIOperands Inst Reg Imm = Inr (False, Reg, Imm))"
proof -
  have positive:
    "getLIOperands \<lparr>opcode = C_LI, operands = MO_Register R # MO_Immediate C # rest, debugLoc = d\<rparr>
       Reg Imm = Inr (True, R, C)"
    "getLIOperands \<lparr>opcode = ADDI,
         operands = MO_Register R # MO_Register X0 # MO_Immediate C # rest, debugLoc = d\<rparr>
       Reg Imm = Inr (True, R, C)"
    "getLIOperands \<lparr>opcode = ADDI,
         operands = MO_Register R # MO_Immediate C # MO_Register X0 # rest, debugLoc = d\<rparr>
       Reg Imm = Inr (True, R, C)"
    "getLIOperands \<lparr>opcode = COPY, operands = MO_Register R # MO_Register X0 # rest, debugLoc = d\<rparr>
       Reg Imm = Inr (True, R, 0)"
    by (simp_all add: getLIOperands_def getLIOperandsCopy_def getOperand_def isCopy_def)
  have other: "opcode Inst \<noteq> C_LI \<and> opcode Inst \<noteq> ADDI \<and> opcode Inst \<noteq> COPY
        \<longrightarrow> getLIOperands Inst Reg Imm = Inr (False, Reg, Imm)"
    by (simp add: getLIOperands_def getLIOperandsCopy_def isCopy_def)
  have match: "getLIOperands Inst Reg Imm = Inr (True, R, C) \<longleftrightarrow>
        (opcode Inst = C_LI \<and> (\<exists>xs. operands Inst = MO_Register R # MO_Immediate C # xs))
        \<or> (opcode Inst = ADDI \<and>
             (\<exists>xs. operands Inst = MO_Register R # MO_Register X0 # MO_Immediate C # xs))
        \<or> (opcode Inst = ADDI \<and>
             (\<exists>xs. operands Inst = MO_Register R # MO_Immediate C # MO_Register X0 # xs))
        \<or> (opcode Inst = COPY \<and> C = 0 \<and>
             (\<exists>xs. operands Inst = MO_Register R # MO_Register X0 # xs))"
  proof -
    consider (li) "opcode Inst = C_LI" | (addi) "opcode Inst = ADDI"
      | (rest) "opcode Inst \<noteq> C_LI" "opcode Inst \<noteq> ADDI" by blast
    then show ?thesis
    proof cases
      case li
      then show ?thesis by (simp add: getLIOperands_C_LI)
    next
      case addi
      then show ?thesis by (auto simp: getLIOperands_ADDI isImm_iff split: if_splits)
    next
      case rest
      then show ?thesis
        by (auto simp: getLIOperands_other getLIOperandsCopy_result split: if_splits)
    qed
  qed
  have no_match: "getLIOperands Inst Reg Imm = Inr (False, R, C) \<longleftrightarrow>
        (opcode Inst = ADDI \<and> C = Imm \<and>
           (\<exists>x y xs. operands Inst = MO_Register R # x # y # xs
              \<and> \<not> (x = MO_Register X0 \<and> isImm y) \<and> \<not> (isImm x \<and> y = MO_Register X0)))
        \<or> (opcode Inst = COPY \<and> R = Reg \<and> C = Imm \<and>
             (\<exists>x y xs. operands Inst = x # y # xs \<and> y \<noteq> MO_Register X0))
        \<or> (opcode Inst \<noteq> C_LI \<and> opcode Inst \<noteq> ADDI \<and> opcode Inst \<noteq> COPY
             \<and> R = Reg \<and> C = Imm)"
  proof -
    consider (li) "opcode Inst = C_LI" | (addi) "opcode Inst = ADDI"
      | (rest) "opcode Inst \<noteq> C_LI" "opcode Inst \<noteq> ADDI" by blast
    then show ?thesis
    proof cases
      case li
      then show ?thesis by (simp add: getLIOperands_C_LI)
    next
      case addi
      then show ?thesis by (auto simp: getLIOperands_ADDI split: if_splits)
    next
      case rest
      then show ?thesis
        by (auto simp: getLIOperands_other getLIOperandsCopy_result split: if_splits)
    qed
  qed
  have addi_no: "opcode Inst = ADDI \<and> operands Inst = MO_Register R # a # b # rest
        \<and> \<not> (a = MO_Register X0 \<and> isImm b) \<and> \<not> (isImm a \<and> b = MO_Register X0)
        \<longrightarrow> getLIOperands Inst Reg Imm = Inr (False, R, Imm)"
    by (auto simp: getLIOperands_ADDI)
  have copy_no: "opcode Inst = COPY \<and> operands Inst = dst # src # rest \<and> src \<noteq> MO_Register X0
        \<longrightarrow> getLIOperands Inst Reg Imm = Inr (False, Reg, Imm)"
    by (auto simp: getLIOperands_other getLIOperandsCopy_result)
  show ?thesis
    by (intro conjI positive other match no_match addi_no copy_no)
qed

theorem getLIOperands_forms_witness:
  "opcode (mkInst PseudoRET [] 0) \<noteq> C_LI \<and> opcode (mkInst PseudoRET [] 0) \<noteq> ADDI
   \<and> opcode (mkInst PseudoRET [] 0) \<noteq> COPY
   \<and> getLIOperands (mkInst PseudoRET [] 0) 3 4 = Inr (False, 3, 4)
   \<and> getLIOperands (mkInst C_LI [MO_Register 10, MO_Immediate 5] 0) 3 4 = Inr (True, 10, 5)
   \<and> getLIOperands (mkInst ADDI [MO_Register 10, MO_Register X0, MO_Immediate 5] 0) 3 4
        = Inr (True, 10, 5)
   \<and> getLIOperands (mkInst ADDI [MO_Register 10, MO_Immediate 5, MO_Register X0] 0) 3 4
        = Inr (True, 10, 5)
   \<and> getLIOperands (mkInst COPY [MO_Register 10, MO_Register X0] 0) 3 4 = Inr (True, 10, 0)
   \<and> opcode (mkInst ADDI [MO_Register 10, MO_Register 11, MO_Immediate 5] 0) = ADDI
   \<and> MO_Register 11 \<noteq> MO_Register X0 \<and> \<not> isImm (MO_Register 11)
   \<and> getLIOperands (mkInst ADDI [MO_Register 10, MO_Register 11, MO_Immediate 5] 0) 3 4
        = Inr (False, 10, 4)
   \<and> opcode (mkInst COPY [MO_Register 10, MO_Register 11] 0) = COPY
   \<and> getLIOperands (mkInst COPY [MO_Register 10, MO_Register 11] 0) 3 4 = Inr (False, 3, 4)"
  using getLIOperands_forms [of 10 5 "[]" 0 3 4 "mkInst PseudoRET [] 0"]
    getLIOperands_forms [of 10 5 "[]" 0 3 4
      "mkInst ADDI [MO_Register 10, MO_Register 11, MO_Immediate 5] 0"
      "MO_Register 11" "MO_Immediate 5"]
    getLIOperands_forms [of 10 5 "[]" 0 3 4
      "mkInst COPY [MO_Register 10, MO_Register 11] 0" _ _ "MO_Register 10" "MO_Register 11"]
  by (simp add: mkInst_def X0_def)

text \<open>
  Claim C7, as the spec states it: when \<^verbatim>\<open>getLIOperands\<close> reports no match, the
  out-parameters \<^verbatim>\<open>Reg\<close> and \<^verbatim>\<open>Imm\<close> are left as they were.  This fails on
  \<^verbatim>\<open>addi x10, x11, 5\<close>: the function assigns \<^verbatim>\<open>Reg\<close> before it looks at the source
  operands, so the call returns false with \<^verbatim>\<open>Reg\<close> changed from \<open>0\<close> to \<open>10\<close>.
\<close>

theorem getLIOperands_clobbers_Reg:
  "getLIOperands (mkInst ADDI [MO_Register 10, MO_Register 11, MO_Immediate 5] 0) 0 7
     = Inr (False, 10, 7) \<and> (10 :: Register) \<noteq> 0"
  by (simp add: mkInst_def getLIOperands_def getLIOperandsCopy_def getOperand_def isCopy_def X0_def)

text \<open>
  Claim C7, amended.  When \<^verbatim>\<open>getLIOperands\<close> reports no match, \<^verbatim>\<open>Imm\<close> is left
  as it was; \<^verbatim>\<open>Reg\<close> is left as it was unless the instruction is an \<^verbatim>\<open>ADDI\<close>, and
  for an \<^verbatim>\<open>ADDI\<close> it holds the destination register of the instruction (operand 0).
  The outcome is a boolean, so it is exactly one of match and no match.
\<close>

theorem getLIOperands_no_match_frame:
  "getLIOperands Inst Reg Imm = Inr (False, r', i') \<Longrightarrow>
     i' = Imm
     \<and> (opcode Inst \<noteq> ADDI \<longrightarrow> r' = Reg)
     \<and> (opcode Inst = ADDI \<longrightarrow> getOperand Inst 0 = Inr (MO_Register r'))"
  by (auto simp: getLIOperands_def bindE_eq_Inr getReg_eq_Inr isCopy_def
           dest!: getLIOperandsCopy_False split: if_splits)

theorem getLIOperands_no_match_frame_witness:
  "getLIOperands (mkInst ADDI [MO_Register 10, MO_Register 11, MO_Immediate 5] 0) 0 7
     = Inr (False, 10, 7)
   \<and> getOperand (mkInst ADDI [MO_Register 10, MO_Register 11, MO_Immediate 5] 0) 0
     = Inr (MO_Register 10)"
  using getLIOperands_no_match_frame
    [of "mkInst ADDI [MO_Register 10, MO_Register 11, MO_Immediate 5] 0" 0 7 10 7]
  by (simp add: mkInst_def getLIOperands_def getLIOperandsCopy_def getOperand_def isCopy_def X0_def)

section \<open>The conditional-branch recognizer\<close>

lemma resolveTarget_None [simp]: "resolveTarget MF P Inst EqOpc None = Inr None"
  by (simp add: resolveTarget_def)

lemma resolveTarget_Some_eq:
  "opcode Inst = EqOpc \<Longrightarrow>
   resolveTarget MF P Inst EqOpc (Some old) =
     bindE (getOperand Inst 2) (\<lambda>op2. bindE (getMBB op2) (\<lambda>t. Inr (Some (Some t))))"
  by (simp add: resolveTarget_def)

lemma resolveTarget_Some_ne:
  "opcode Inst \<noteq> EqOpc \<Longrightarrow>
   resolveTarget MF P Inst EqOpc (Some old) = Inr (Some (getFallThrough MF P))"
  by (simp add: resolveTarget_def)

lemma resolveTarget_Some_Inr:
  "resolveTarget MF P Inst EqOpc (Some old) = Inr T' \<longleftrightarrow>
     (if opcode Inst = EqOpc
      then \<exists>t. getOperand Inst 2 = Inr (MO_MachineBasicBlock t) \<and> T' = Some (Some t)
      else T' = Some (getFallThrough MF P))"
  by (auto simp: resolveTarget_def bindE_eq_Inr getMBB_eq_Inr)

lemma getCondBranchOperands_eq_form:
  "opcode Inst = BEQ \<or> opcode Inst = BNE \<Longrightarrow>
   getCondBranchOperands MF P Inst Reg Imm Target =
     bindE (getOperand Inst 0) (\<lambda>LHS.
     bindE (getOperand Inst 1) (\<lambda>RHS.
     bindE (resolveTarget MF P Inst BEQ Target) (\<lambda>Target'.
       if isReg LHS \<and> (isImm RHS \<or> isRegX0 RHS) then
         bindE (getReg LHS) (\<lambda>r.
         bindE (if isRegX0 RHS then Inr 0 else getImm RHS) (\<lambda>i.
           Inr (True, r, i, Target')))
       else if (isImm LHS \<or> isRegX0 LHS) \<and> isReg RHS then
         bindE (if isRegX0 LHS then Inr 0 else getImm LHS) (\<lambda>i.
         bindE (getReg RHS) (\<lambda>r.
           Inr (True, r, i, Target')))
       else Inr (False, Reg, Imm, Target'))))"
  unfolding getCondBranchOperands_def by (erule disjE) simp_all

lemma getCondBranchOperands_zero_form:
  "opcode Inst = C_BEQZ \<or> opcode Inst = C_BNEZ \<Longrightarrow>
   getCondBranchOperands MF P Inst Reg Imm Target =
     bindE (getOperand Inst 0) (\<lambda>op0. bindE (getReg op0) (\<lambda>r.
     bindE (resolveTarget MF P Inst C_BEQZ Target) (\<lambda>Target'.
       Inr (True, r, 0, Target'))))"
  unfolding getCondBranchOperands_def by (erule disjE) simp_all

lemma getCondBranchOperands_other_form:
  "opcode Inst \<noteq> BEQ \<Longrightarrow> opcode Inst \<noteq> BNE \<Longrightarrow> opcode Inst \<noteq> C_BEQZ \<Longrightarrow>
   opcode Inst \<noteq> C_BNEZ \<Longrightarrow>
   getCondBranchOperands MF P Inst Reg Imm Target = Inr (False, Reg, Imm, Target)"
  unfolding getCondBranchOperands_def by simp

lemma getCondBranchOperands_True_opcode:
  "getCondBranchOperands MF P Inst Reg Imm Target = Inr (True, r, i, T') \<Longrightarrow>
     opcode Inst = BEQ \<or> opcode Inst = BNE \<or> opcode Inst = C_BEQZ \<or> opcode Inst = C_BNEZ"
  using getCondBranchOperands_other_form [of Inst MF P Reg Imm Target] by auto

lemma BEQ_BNE_result:
  assumes opc: "opcode Inst = BEQ \<or> opcode Inst = BNE"
    and res: "getCondBranchOperands MF P Inst Reg Imm Target = Inr (ok, r, i, T')"
  shows "resolveTarget MF P Inst BEQ Target = Inr T'"
  using res unfolding getCondBranchOperands_eq_form [OF opc]
  by (auto simp: bindE_eq_Inr split: if_splits)

lemma BEQ_BNE_False:
  assumes opc: "opcode Inst = BEQ \<or> opcode Inst = BNE"
    and res: "getCondBranchOperands MF P Inst Reg Imm Target = Inr (False, r', i', T')"
  shows "r' = Reg \<and> i' = Imm"
  using res unfolding getCondBranchOperands_eq_form [OF opc]
  by (auto simp: bindE_eq_Inr split: if_splits)

lemma C_BEQZ_C_BNEZ_result:
  assumes opc: "opcode Inst = C_BEQZ \<or> opcode Inst = C_BNEZ"
    and res: "getCondBranchOperands MF P Inst Reg Imm Target = Inr (ok, r, i, T')"
  shows "resolveTarget MF P Inst C_BEQZ Target = Inr T' \<and> i = 0 \<and> ok
     \<and> getOperand Inst 0 = Inr (MO_Register r)"
  using res unfolding getCondBranchOperands_zero_form [OF opc]
  by (auto simp: bindE_eq_Inr getReg_eq_Inr)

lemma C_BEQZ_requested:
  assumes opc: "opcode Inst = C_BEQZ"
  shows "getCondBranchOperands MF P Inst Reg Imm (Some old) =
     bindE (getOperand Inst 0) (\<lambda>op0. bindE (getReg op0) (\<lambda>r.
     bindE (getOperand Inst 2) (\<lambda>op2. bindE (getMBB op2) (\<lambda>t.
       Inr (True, r, 0, Some (Some t))))))"
proof -
  have "opcode Inst = C_BEQZ \<or> opcode Inst = C_BNEZ" using opc by simp
  from getCondBranchOperands_zero_form [OF this] show ?thesis
    by (cases "getOperand Inst 2"; cases "getOperand Inst 0")
       (auto simp: resolveTarget_Some_eq [OF opc] bindE_def split: sum.splits)
qed

text \<open>
  Claim C3.  Whenever \<^verbatim>\<open>getCondBranchOperands\<close> accepts an instruction and the caller
  asked for the target, the instruction is one of \<^verbatim>\<open>BEQ\<close>, \<^verbatim>\<open>BNE\<close>,
  \<^verbatim>\<open>C_BEQZ\<close>, \<^verbatim>\<open>C_BNEZ\<close>; for the equality forms \<^verbatim>\<open>BEQ\<close> and \<^verbatim>\<open>C_BEQZ\<close>
  the block written to the target is the block operand the function reads as the explicit
  branch target (operand 2); for the inequality forms \<^verbatim>\<open>BNE\<close> and \<^verbatim>\<open>C_BNEZ\<close> it
  is the fallthrough successor of the block that holds the branch; and for the
  compare-with-zero forms the constant is \<open>0\<close>.
\<close>

theorem getCondBranchOperands_polarity:
  "getCondBranchOperands MF P Inst Reg Imm (Some old) = Inr (True, r, i, T') \<Longrightarrow>
     (opcode Inst = BEQ \<or> opcode Inst = BNE \<or> opcode Inst = C_BEQZ \<or> opcode Inst = C_BNEZ)
     \<and> (opcode Inst = BEQ \<or> opcode Inst = C_BEQZ \<longrightarrow>
          (\<exists>t. getOperand Inst 2 = Inr (MO_MachineBasicBlock t) \<and> T' = Some (Some t)))
     \<and> (opcode Inst = BNE \<or> opcode Inst = C_BNEZ \<longrightarrow> T' = Some (getFallThrough MF P))
     \<and> (opcode Inst = C_BEQZ \<or> opcode Inst = C_BNEZ \<longrightarrow> i = 0)"
proof -
  assume res: "getCondBranchOperands MF P Inst Reg Imm (Some old) = Inr (True, r, i, T')"
  from getCondBranchOperands_True_opcode [OF res]
  consider (eq) "opcode Inst = BEQ \<or> opcode Inst = BNE"
    | (zero) "opcode Inst = C_BEQZ \<or> opcode Inst = C_BNEZ"
    by blast
  then show ?thesis
  proof cases
    case eq
    from BEQ_BNE_result [OF eq res] eq show ?thesis
      by (auto simp: resolveTarget_Some_Inr split: if_splits)
  next
    case zero
    from C_BEQZ_C_BNEZ_result [OF zero res] zero show ?thesis
      by (auto simp: resolveTarget_Some_Inr split: if_splits)
  qed
qed

theorem getCondBranchOperands_polarity_witness:
  "getCondBranchOperands wrongEdgeFn 0 (last (insts (wrongEdgeFn ! 0))) 0 0 (Some None)
     = Inr (True, 10, 5, Some (Some 3))
   \<and> getOperand (last (insts (wrongEdgeFn ! 0))) 2 = Inr (MO_MachineBasicBlock 3)
   \<and> getCondBranchOperands wrongEdgeFn 1 (last (insts (wrongEdgeFn ! 1))) 0 0 (Some None)
     = Inr (True, 10, 5, Some (getFallThrough wrongEdgeFn 1))
   \<and> getFallThrough wrongEdgeFn 1 = Some 2
   \<and> getCondBranchOperands wrongEdgeFn 1
        (mkInst C_BNEZ [MO_Register 10, MO_MachineBasicBlock 3] 0) 0 7 (Some None)
     = Inr (True, 10, 0, Some (Some 2))"
  using getCondBranchOperands_polarity
    [of wrongEdgeFn 0 "last (insts (wrongEdgeFn ! 0))" 0 0 None 10 5 "Some (Some 3)"]
    getCondBranchOperands_polarity
    [of wrongEdgeFn 1 "last (insts (wrongEdgeFn ! 1))" 0 0 None 10 5 "Some (Some 2)"]
    getCondBranchOperands_polarity
    [of wrongEdgeFn 1 "mkInst C_BNEZ [MO_Register 10, MO_MachineBasicBlock 3] 0" 0 7 None 10 0
        "Some (Some 2)"]
  by (simp add: wrongEdgeFn_def mkInst_def mkBlock_def getCondBranchOperands_def
        resolveTarget_def getOperand_def getFallThrough_def endsInUnconditionalTransfer_def
        isUnconditionalBranch_def isReturn_def X0_def)

text \<open>
  Claim C9.  Asked for the target of a \<^verbatim>\<open>C_BEQZ\<close>, \<^verbatim>\<open>getCondBranchOperands\<close>
  reads operand 2 as the target block.  The call returns without a fault exactly when
  operand 0 is a register, the instruction has at least three operands and operand 2 is a
  block.  On the two-operand encoding (register, target at index 1) the read of operand 2
  is out of range; with a block at index 2 the call succeeds and yields that block.
\<close>

theorem getCondBranchOperands_C_BEQZ_operand2:
  "opcode Inst = C_BEQZ \<Longrightarrow>
     ((\<exists>res. getCondBranchOperands MF P Inst Reg Imm (Some old) = Inr res) \<longleftrightarrow>
        (\<exists>r t. getOperand Inst 0 = Inr (MO_Register r) \<and> 2 < length (operands Inst)
               \<and> operands Inst ! 2 = MO_MachineBasicBlock t))
     \<and> (\<forall>r t. operands Inst = [MO_Register r, MO_MachineBasicBlock t] \<longrightarrow>
          getCondBranchOperands MF P Inst Reg Imm (Some old) = Inl OperandOutOfRange)
     \<and> (\<forall>r x t rest. operands Inst = MO_Register r # x # MO_MachineBasicBlock t # rest \<longrightarrow>
          getCondBranchOperands MF P Inst Reg Imm (Some old) = Inr (True, r, 0, Some (Some t)))"
proof (intro conjI allI impI)
  assume opc: "opcode Inst = C_BEQZ"
  show "(\<exists>res. getCondBranchOperands MF P Inst Reg Imm (Some old) = Inr res) \<longleftrightarrow>
        (\<exists>r t. getOperand Inst 0 = Inr (MO_Register r) \<and> 2 < length (operands Inst)
               \<and> operands Inst ! 2 = MO_MachineBasicBlock t)"
    unfolding C_BEQZ_requested [OF opc]
    by (auto simp: bindE_eq_Inr getReg_eq_Inr getMBB_eq_Inr getOperand_def split: if_splits)
next
  fix r t
  assume opc: "opcode Inst = C_BEQZ"
    and ops: "operands Inst = [MO_Register r, MO_MachineBasicBlock t]"
  show "getCondBranchOperands MF P Inst Reg Imm (Some old) = Inl OperandOutOfRange"
    unfolding C_BEQZ_requested [OF opc] by (simp add: getOperand_def ops)
next
  fix r x t rest
  assume opc: "opcode Inst = C_BEQZ"
    and ops: "operands Inst = MO_Register r # x # MO_MachineBasicBlock t # rest"
  show "getCondBranchOperands MF P Inst Reg Imm (Some old) = Inr (True, r, 0, Some (Some t))"
    unfolding C_BEQZ_requested [OF opc] by (simp add: getOperand_def ops)
qed

theorem getCondBranchOperands_C_BEQZ_operand2_witness:
  "opcode (mkInst C_BEQZ [MO_Register 10, MO_MachineBasicBlock 3] 0) = C_BEQZ
   \<and> operands (mkInst C_BEQZ [MO_Register 10, MO_MachineBasicBlock 3] 0)
        = [MO_Register 10, MO_MachineBasicBlock 3]
   \<and> getCondBranchOperands [] 0 (mkInst C_BEQZ [MO_Register 10, MO_MachineBasicBlock 3] 0)
        0 0 (Some None) = Inl OperandOutOfRange
   \<and> getCondBranchOperands [] 0
        (mkInst C_BEQZ [MO_Register 10, MO_Immediate 0, MO_MachineBasicBlock 3] 0)
        0 0 (Some None) = Inr (True, 10, 0, Some (Some 3))"
  using getCondBranchOperands_C_BEQZ_operand2
    [of "mkInst C_BEQZ [MO_Register 10, MO_MachineBasicBlock 3] 0" "[]" 0 0 0 None]
    getCondBranchOperands_C_BEQZ_operand2
    [of "mkInst C_BEQZ [MO_Register 10, MO_Immediate 0, MO_MachineBasicBlock 3] 0" "[]" 0 0 0 None]
  by (simp add: mkInst_def)

text \<open>
  Claim C10, as stated: when \<^verbatim>\<open>getCondBranchOperands\<close> returns false on a \<^verbatim>\<open>BEQ\<close>
  or \<^verbatim>\<open>BNE\<close> and the caller asked for the target, a block has been written to the
  target, which is therefore not left as it was.  This fails for \<^verbatim>\<open>bne x10, x11, bb0\<close>
  in a block without fallthrough, called with a null target as
  \<^verbatim>\<open>eliminateAssignAfterBranchTest\<close> does: what is assigned is the null fallthrough, and
  the target is null before and after.
\<close>

theorem getCondBranchOperands_null_stays_null:
  "opcode (last (insts (bneRegsLastFn ! 0))) = BNE
   \<and> getFallThrough bneRegsLastFn 0 = None
   \<and> getCondBranchOperands bneRegsLastFn 0 (last (insts (bneRegsLastFn ! 0))) 8 9 (Some None)
        = Inr (False, 8, 9, Some None)"
  by (simp add: bneRegsLastFn_def mkBlock_def mkInst_def getCondBranchOperands_def
        resolveTarget_def getOperand_def getFallThrough_def X0_def)

text \<open>
  Claim C10, amended.  When \<^verbatim>\<open>getCondBranchOperands\<close> returns false on a \<^verbatim>\<open>BEQ\<close>
  or \<^verbatim>\<open>BNE\<close> (neither operand order is a register with a constant) and the caller asked
  for the target, the target has already been assigned, whatever it held before: the
  block of operand 2 for \<^verbatim>\<open>BEQ\<close>, the fallthrough of the parent block for \<^verbatim>\<open>BNE\<close>,
  which is null when the block has no fallthrough.  So the target holds its old value
  afterwards only if that was the value assigned.  \<^verbatim>\<open>Reg\<close> and \<^verbatim>\<open>Imm\<close> are as
  before the call.
\<close>

theorem getCondBranchOperands_failure_assigns_Target:
  "opcode Inst = BEQ \<or> opcode Inst = BNE \<Longrightarrow>
   getCondBranchOperands MF P Inst Reg Imm (Some old) = Inr (False, r', i', T') \<Longrightarrow>
     (opcode Inst = BEQ \<longrightarrow>
        (\<exists>t. getOperand Inst 2 = Inr (MO_MachineBasicBlock t) \<and> T' = Some (Some t)))
     \<and> (opcode Inst = BNE \<longrightarrow> T' = Some (getFallThrough MF P))
     \<and> r' = Reg \<and> i' = Imm
     \<and> (T' = Some old \<longleftrightarrow>
          (if opcode Inst = BEQ
           then \<exists>t. old = Some t \<and> getOperand Inst 2 = Inr (MO_MachineBasicBlock t)
           else old = getFallThrough MF P))"
proof -
  assume opc: "opcode Inst = BEQ \<or> opcode Inst = BNE"
    and res: "getCondBranchOperands MF P Inst Reg Imm (Some old) = Inr (False, r', i', T')"
  from BEQ_BNE_result [OF opc res]
  have rt: "resolveTarget MF P Inst BEQ (Some old) = Inr T'" .
  from BEQ_BNE_False [OF opc res]
  have fr: "r' = Reg" "i' = Imm"
    by simp_all
  from opc consider (beq) "opcode Inst = BEQ" | (bne) "opcode Inst = BNE" by blast
  then show ?thesis
  proof cases
    case beq
    with rt fr show ?thesis by (auto simp: resolveTarget_Some_Inr)
  next
    case bne
    with rt fr show ?thesis by (auto simp: resolveTarget_Some_Inr)
  qed
qed

theorem getCondBranchOperands_failure_assigns_Target_witness:
  "opcode (mkInst BEQ [MO_Immediate 1, MO_Immediate 2, MO_MachineBasicBlock 3] 0) = BEQ
   \<and> getCondBranchOperands [] 0
        (mkInst BEQ [MO_Immediate 1, MO_Immediate 2, MO_MachineBasicBlock 3] 0) 8 9 (Some None)
      = Inr (False, 8, 9, Some (Some 3))
   \<and> getOperand (mkInst BEQ [MO_Immediate 1, MO_Immediate 2, MO_MachineBasicBlock 3] 0) 2
      = Inr (MO_MachineBasicBlock 3)
   \<and> Some (Some (3 :: BlockRef)) \<noteq> Some None
   \<and> opcode (last (insts (bneRegsFn ! 0))) = BNE
   \<and> getCondBranchOperands bneRegsFn 0 (last (insts (bneRegsFn ! 0))) 8 9 (Some None)
      = Inr (False, 8, 9, Some (Some 1))
   \<and> getFallThrough bneRegsFn 0 = Some 1
   \<and> opcode (last (insts (bneRegsLastFn ! 0))) = BNE
   \<and> getCondBranchOperands bneRegsLastFn 0 (last (insts (bneRegsLastFn ! 0))) 8 9 (Some None)
      = Inr (False, 8, 9, Some None)
   \<and> getFallThrough bneRegsLastFn 0 = None"
  using getCondBranchOperands_failure_assigns_Target
    [of "mkInst BEQ [MO_Immediate 1, MO_Immediate 2, MO_MachineBasicBlock 3] 0"
        "[]" 0 8 9 None 8 9 "Some (Some 3)"]
    getCondBranchOperands_failure_assigns_Target
    [of "last (insts (bneRegsFn ! 0))" bneRegsFn 0 8 9 None 8 9 "Some (Some 1)"]
    getCondBranchOperands_failure_assigns_Target
    [of "last (insts (bneRegsLastFn ! 0))" bneRegsLastFn 0 8 9 None 8 9 "Some None"]
  by (simp add: bneRegsFn_def bneRegsLastFn_def mkBlock_def mkInst_def
        getCondBranchOperands_def resolveTarget_def getOperand_def getFallThrough_def
        endsInUnconditionalTransfer_def isUnconditionalBranch_def isReturn_def X0_def)

section \<open>Transform A\<close>

lemma getBlock_valid [simp]: "b < length MF \<Longrightarrow> getBlock MF b = Inr (MF ! b)"
  by (simp add: getBlock_def)

lemma getBlock_eq_Inr: "getBlock MF b = Inr B \<longleftrightarrow> b < length MF \<and> B = MF ! b"
  by (auto simp: getBlock_def)

lemma branch_is_no_return: "isUnconditionalBranch I \<Longrightarrow> \<not> isReturn I"
  by (cases "opcode I") (simp_all add: isUnconditionalBranch_def isReturn_def)

lemma erase_branch_after_BuildMI:
  "insts MBB \<noteq> [] \<Longrightarrow>
   eraseFromParent (BuildMI MBB DL Opc) (length (insts MBB) - Suc 0) =
     MBB\<lparr>insts := butlast (insts MBB) @ [\<lparr>opcode = Opc, operands = [], debugLoc = DL\<rparr>]\<rparr>"
  by (simp add: eraseFromParent_def BuildMI_def butlast_conv_take)

lemma singleton_hd_last: "length xs = Suc 0 \<Longrightarrow> hd xs = last xs"
  by (cases xs) simp_all

text \<open>
  Claim C2.  Let block \<open>b\<close> be non-empty with an unconditional branch to block \<open>t\<close> as
  its last instruction.  If \<open>t\<close> holds exactly one instruction and that is a return,
  \<^verbatim>\<open>eliminateJumpToExitBlock\<close> reports a change; afterwards block \<open>b\<close> is its old
  instructions without the branch followed by a new \<^verbatim>\<open>PseudoRET\<close> that carries the
  branch's debug location, and every other block, \<open>t\<close> among them, is as before.  If
  \<open>t\<close> holds another number of instructions, or its only instruction is not a return,
  the function is unchanged and no change is reported.
\<close>

theorem eliminateJumpToExitBlock_spec:
  assumes b: "b < length MF"
    and nonempty: "insts (MF ! b) \<noteq> []"
    and br: "isUnconditionalBranch (last (insts (MF ! b)))"
    and op0: "getOperand (last (insts (MF ! b))) 0 = Inr (MO_MachineBasicBlock t)"
    and t: "t < length MF"
  shows "(length (insts (MF ! t)) = 1 \<and> isReturn (hd (insts (MF ! t))) \<longrightarrow>
            eliminateJumpToExitBlock MF b =
              Inr (True, MF[b := (MF ! b)\<lparr>insts := butlast (insts (MF ! b)) @
                     [\<lparr>opcode = PseudoRET, operands = [],
                       debugLoc = debugLoc (last (insts (MF ! b)))\<rparr>]\<rparr>])
            \<and> t \<noteq> b
            \<and> MF[b := (MF ! b)\<lparr>insts := butlast (insts (MF ! b)) @
                     [\<lparr>opcode = PseudoRET, operands = [],
                       debugLoc = debugLoc (last (insts (MF ! b)))\<rparr>]\<rparr>] ! t = MF ! t)
         \<and> (\<not> (length (insts (MF ! t)) = 1 \<and> isReturn (hd (insts (MF ! t)))) \<longrightarrow>
            eliminateJumpToExitBlock MF b = Inr (False, MF))"
proof (intro conjI impI)
  assume ret: "length (insts (MF ! t)) = 1 \<and> isReturn (hd (insts (MF ! t)))"
  show res: "eliminateJumpToExitBlock MF b =
              Inr (True, MF[b := (MF ! b)\<lparr>insts := butlast (insts (MF ! b)) @
                     [\<lparr>opcode = PseudoRET, operands = [],
                       debugLoc = debugLoc (last (insts (MF ! b)))\<rparr>]\<rparr>])"
    using b nonempty br op0 t ret
    by (simp add: eliminateJumpToExitBlock_def Let_def erase_branch_after_BuildMI)
  show ne: "t \<noteq> b"
  proof
    assume "t = b"
    with ret have "length (insts (MF ! b)) = Suc 0" "isReturn (hd (insts (MF ! b)))"
      by simp_all
    then have "isReturn (last (insts (MF ! b)))"
      by (simp add: singleton_hd_last)
    with br show False by (simp add: branch_is_no_return)
  qed
  show "MF[b := (MF ! b)\<lparr>insts := butlast (insts (MF ! b)) @
                     [\<lparr>opcode = PseudoRET, operands = [],
                       debugLoc = debugLoc (last (insts (MF ! b)))\<rparr>]\<rparr>] ! t = MF ! t"
    using ne by simp
next
  assume "\<not> (length (insts (MF ! t)) = 1 \<and> isReturn (hd (insts (MF ! t))))"
  then show "eliminateJumpToExitBlock MF b = Inr (False, MF)"
    using b nonempty br op0 t
    by (simp add: eliminateJumpToExitBlock_def Let_def)
qed

theorem eliminateJumpToExitBlock_spec_witness:
  "(0::nat) < length jumpToRetFn \<and> insts (jumpToRetFn ! 0) \<noteq> []
   \<and> isUnconditionalBranch (last (insts (jumpToRetFn ! 0)))
   \<and> getOperand (last (insts (jumpToRetFn ! 0))) 0 = Inr (MO_MachineBasicBlock 1)
   \<and> (1::nat) < length jumpToRetFn
   \<and> length (insts (jumpToRetFn ! 1)) = 1 \<and> isReturn (hd (insts (jumpToRetFn ! 1)))
   \<and> eliminateJumpToExitBlock jumpToRetFn 0 =
       Inr (True, [mkBlock [mkInst PseudoRET [] 7] [], mkBlock [mkInst PseudoRET [] 9] [0]])
   \<and> (1::nat) < length jumpPredFn \<and> insts (jumpPredFn ! 1) \<noteq> []
   \<and> isUnconditionalBranch (last (insts (jumpPredFn ! 1)))
   \<and> getOperand (last (insts (jumpPredFn ! 1))) 0 = Inr (MO_MachineBasicBlock 2)
   \<and> (2::nat) < length jumpPredFn
   \<and> length (insts (jumpPredFn ! 2)) \<noteq> 1
   \<and> eliminateJumpToExitBlock jumpPredFn 1 = Inr (False, jumpPredFn)"
  using eliminateJumpToExitBlock_spec [of 0 jumpToRetFn 1]
    eliminateJumpToExitBlock_spec [of 1 jumpPredFn 2]
  by (simp add: jumpToRetFn_def jumpPredFn_def mkBlock_def mkInst_def getOperand_def
        isUnconditionalBranch_def isReturn_def)

section \<open>The driver\<close>

text \<open>
  Claim C5 says the pass returns true if and only if some block was changed.  On
  \<^verbatim>\<open>bb0: j bb1\<close>, \<^verbatim>\<open>bb1: ret\<close> Transform A rewrites \<^verbatim>\<open>bb0\<close> and reports the
  change, but the loop then assigns (it does not accumulate) the flag from Transform A on
  \<^verbatim>\<open>bb1\<close>, which changes nothing: the pass returns false for a function it modified.
\<close>

theorem runOnMachineFunction_underreports:
  "runOnMachineFunction jumpToRetFn =
     Inr (False, [mkBlock [mkInst PseudoRET [] 7] [], mkBlock [mkInst PseudoRET [] 9] [0]])
   \<and> [mkBlock [mkInst PseudoRET [] 7] [], mkBlock [mkInst PseudoRET [] 9] [0]] \<noteq> jumpToRetFn
   \<and> eliminateJumpToExitBlock jumpToRetFn 0 =
     Inr (True, [mkBlock [mkInst PseudoRET [] 7] [], mkBlock [mkInst PseudoRET [] 9] [0]])"
  by (simp add: runOnMachineFunction_def jumpToRetFn_def mkBlock_def mkInst_def
        eliminateJumpToExitBlock_def eliminateAssignAfterBranchTest_def getBlock_def
        getOperand_def isUnconditionalBranch_def isReturn_def isConditionalBranch_def
        eraseFromParent_def BuildMI_def upt_rec)

section \<open>Transform B\<close>

lemma getCondBranchOperands_null_Target:
  assumes "getCondBranchOperands MF P Inst Reg Imm None = Inr (ok, r, i, T')"
  shows "T' = None"
proof -
  consider (eq) "opcode Inst = BEQ \<or> opcode Inst = BNE"
    | (zero) "opcode Inst = C_BEQZ \<or> opcode Inst = C_BNEZ"
    | (other) "opcode Inst \<noteq> BEQ" "opcode Inst \<noteq> BNE" "opcode Inst \<noteq> C_BEQZ"
        "opcode Inst \<noteq> C_BNEZ"
    by blast
  then show ?thesis
  proof cases
    case eq
    from BEQ_BNE_result [OF eq assms] show ?thesis by simp
  next
    case zero
    from C_BEQZ_C_BNEZ_result [OF zero assms] show ?thesis by simp
  next
    case other
    with assms show ?thesis by (simp add: getCondBranchOperands_other_form)
  qed
qed

lemma checkPredecessors_Cons_True:
  "checkPredecessors MF Dst Imm (p # ps) = Inr True \<longleftrightarrow>
     predecessorAccepts MF Dst Imm p \<and> checkPredecessors MF Dst Imm ps = Inr True"
proof (cases "p < length MF")
  case False
  then show ?thesis by (simp add: predecessorAccepts_def getBlock_def)
next
  case valid: True
  show ?thesis
  proof (cases "insts (MF ! p) = []")
    case True
    with valid show ?thesis by (simp add: predecessorAccepts_def)
  next
    case nonempty: False
    show ?thesis
    proof (cases "isConditionalBranch (last (insts (MF ! p)))")
      case False
      with valid nonempty show ?thesis by (simp add: predecessorAccepts_def)
    next
      case br: True
      show ?thesis
      proof (cases "getCondBranchOperands MF p (last (insts (MF ! p))) 0 0 None")
        case (Inl e)
        with valid nonempty br show ?thesis by (simp add: predecessorAccepts_def)
      next
        case (Inr res)
        obtain ok r i T' where res: "res = (ok, r, i, T')" by (cases res) auto
        with Inr have "T' = None" by (simp add: getCondBranchOperands_null_Target)
        with valid nonempty br Inr res show ?thesis
          by (auto simp: predecessorAccepts_def)
      qed
    qed
  qed
qed

lemma checkPredecessors_True_iff:
  "checkPredecessors MF Dst Imm ps = Inr True \<longleftrightarrow> list_all (predecessorAccepts MF Dst Imm) ps"
proof (induction ps)
  case Nil
  show ?case by simp
next
  case (Cons p ps)
  then show ?case by (simp only: checkPredecessors_Cons_True list.pred_inject)
qed

lemma eraseFromParent_head: "eraseFromParent B 0 = B\<lparr>insts := tl (insts B)\<rparr>"
  by (simp add: eraseFromParent_def drop_Suc)

lemma removeHeadAssign_result:
  "removeHeadAssign MF Reg Imm (Some t) = Inr (ch, MF') \<longleftrightarrow>
     t < length MF \<and>
     (if insts (MF ! t) \<noteq> [] \<and> getLIOperands (hd (insts (MF ! t))) 0 0 = Inr (True, Reg, Imm)
      then (\<exists>ok. checkPredecessors MF Reg Imm (predecessors (MF ! t)) = Inr ok \<and> ch = ok
             \<and> MF' = (if ok then MF[t := (MF ! t)\<lparr>insts := tl (insts (MF ! t))\<rparr>] else MF))
      else (insts (MF ! t) = [] \<or> (\<exists>res. getLIOperands (hd (insts (MF ! t))) 0 0 = Inr res))
           \<and> \<not> ch \<and> MF' = MF)"
proof (cases "t < length MF")
  case False
  then show ?thesis by (simp add: removeHeadAssign_def getBlock_def)
next
  case valid: True
  show ?thesis
  proof (cases "insts (MF ! t) = []")
    case True
    with valid show ?thesis by (auto simp: removeHeadAssign_def)
  next
    case nonempty: False
    show ?thesis
    proof (cases "getLIOperands (hd (insts (MF ! t))) 0 0")
      case (Inl e)
      with valid nonempty show ?thesis by (simp add: removeHeadAssign_def)
    next
      case (Inr res)
      obtain IsLI Dst LiImm where res: "res = (IsLI, Dst, LiImm)" by (cases res) auto
      show ?thesis
      proof (cases "IsLI \<and> Dst = Reg \<and> LiImm = Imm")
        case False
        with valid nonempty Inr res show ?thesis
          by (auto simp: removeHeadAssign_def)
      next
        case True
        with valid nonempty Inr res show ?thesis
          by (cases "checkPredecessors MF Reg Imm (predecessors (MF ! t))")
             (auto simp: removeHeadAssign_def eraseFromParent_head)
      qed
    qed
  qed
qed

lemma eliminateAssign_branch_form:
  "b < length MF \<Longrightarrow> insts (MF ! b) \<noteq> [] \<Longrightarrow> isConditionalBranch (last (insts (MF ! b))) \<Longrightarrow>
   eliminateAssignAfterBranchTest MF b =
     bindE (getCondBranchOperands MF b (last (insts (MF ! b))) 0 0 (Some None))
       (\<lambda>(Res, Reg, Imm, Target).
          if \<not> Res then Inr (False, MF)
          else removeHeadAssign MF Reg Imm (case Target of None \<Rightarrow> None | Some p \<Rightarrow> p))"
  by (simp add: eliminateAssignAfterBranchTest_def Let_def)

lemma eliminateAssign_no_branch:
  "b < length MF \<Longrightarrow> insts (MF ! b) = [] \<or> \<not> isConditionalBranch (last (insts (MF ! b))) \<Longrightarrow>
   eliminateAssignAfterBranchTest MF b = Inr (False, MF)"
  by (auto simp: eliminateAssignAfterBranchTest_def Let_def)

lemma eliminateAssign_dangling:
  "\<not> b < length MF \<Longrightarrow> eliminateAssignAfterBranchTest MF b = Inl DanglingBlock"
  by (simp add: eliminateAssignAfterBranchTest_def getBlock_def)

lemma eliminateAssign_recognized:
  assumes "b < length MF" "insts (MF ! b) \<noteq> []" "isConditionalBranch (last (insts (MF ! b)))"
    and "getCondBranchOperands MF b (last (insts (MF ! b))) 0 0 (Some None)
           = Inr (True, Reg, Imm, Some T)"
  shows "eliminateAssignAfterBranchTest MF b = removeHeadAssign MF Reg Imm T"
  using assms by (simp add: eliminateAssign_branch_form)

lemma requested_Target_written:
  assumes "getCondBranchOperands MF P Inst Reg Imm (Some old) = Inr (True, r, i, T')"
  shows "\<exists>T. T' = Some T"
proof -
  from getCondBranchOperands_True_opcode [OF assms]
  consider (eq) "opcode Inst = BEQ \<or> opcode Inst = BNE"
    | (zero) "opcode Inst = C_BEQZ \<or> opcode Inst = C_BNEZ"
    by blast
  then show ?thesis
  proof cases
    case eq
    from BEQ_BNE_result [OF eq assms] show ?thesis
      by (auto simp: resolveTarget_Some_Inr split: if_splits)
  next
    case zero
    from C_BEQZ_C_BNEZ_result [OF zero assms] show ?thesis
      by (auto simp: resolveTarget_Some_Inr split: if_splits)
  qed
qed

lemma eliminateAssign_Inr_cases:
  assumes res: "eliminateAssignAfterBranchTest MF b = Inr (ch, MF')"
  shows "(\<not> ch \<and> MF' = MF) \<or>
         (\<exists>Reg Imm t. b < length MF \<and> insts (MF ! b) \<noteq> []
            \<and> isConditionalBranch (last (insts (MF ! b)))
            \<and> getCondBranchOperands MF b (last (insts (MF ! b))) 0 0 (Some None)
                = Inr (True, Reg, Imm, Some (Some t))
            \<and> removeHeadAssign MF Reg Imm (Some t) = Inr (ch, MF'))"
proof (cases "b < length MF \<and> insts (MF ! b) \<noteq> [] \<and> isConditionalBranch (last (insts (MF ! b)))")
  case False
  then have "eliminateAssignAfterBranchTest MF b = Inr (False, MF)
             \<or> eliminateAssignAfterBranchTest MF b = Inl DanglingBlock"
    using eliminateAssign_no_branch [of b MF] eliminateAssign_dangling [of b MF] by blast
  with res show ?thesis by auto
next
  case True
  then have valid: "b < length MF" and nonempty: "insts (MF ! b) \<noteq> []"
    and br: "isConditionalBranch (last (insts (MF ! b)))" by simp_all
  from res obtain Res Reg Imm Target
    where rec: "getCondBranchOperands MF b (last (insts (MF ! b))) 0 0 (Some None)
                  = Inr (Res, Reg, Imm, Target)"
      and rest: "(if \<not> Res then Inr (False, MF)
                  else removeHeadAssign MF Reg Imm (case Target of None \<Rightarrow> None | Some p \<Rightarrow> p))
                 = Inr (ch, MF')"
    unfolding eliminateAssign_branch_form [OF valid nonempty br]
    by (auto simp: bindE_eq_Inr)
  show ?thesis
  proof (cases Res)
    case False
    with rest show ?thesis by simp
  next
    case True
    with rec have rec': "getCondBranchOperands MF b (last (insts (MF ! b))) 0 0 (Some None)
                  = Inr (True, Reg, Imm, Target)" by simp
    from requested_Target_written [OF rec'] obtain T where T: "Target = Some T" by blast
    from True rest T have rh: "removeHeadAssign MF Reg Imm T = Inr (ch, MF')" by simp
    then obtain t where t: "T = Some t"
      by (cases T) (simp_all add: removeHeadAssign_def)
    with valid nonempty br rec' T rh show ?thesis by blast
  qed
qed

lemmas peephole_eval =
  mkBlock_def mkInst_def getBlock_def getOperand_def
  isConditionalBranch_def isUnconditionalBranch_def isReturn_def isCopy_def
  getFallThrough_def endsInUnconditionalTransfer_def
  getLIOperands_def getLIOperandsCopy_def resolveTarget_def getCondBranchOperands_def
  BuildMI_def eraseFromParent_def eliminateJumpToExitBlock_def
  removeHeadAssign_def eliminateAssignAfterBranchTest_def X0_def eval_nat_numeral

lemma getOperand_not_null [simp]: "getOperand I n \<noteq> Inl NullDereference"
  by (simp add: getOperand_def)

lemma getReg_not_null [simp]: "getReg op \<noteq> Inl NullDereference"
  by (cases op) simp_all

lemma getImm_not_null [simp]: "getImm op \<noteq> Inl NullDereference"
  by (cases op) simp_all

lemma getMBB_not_null [simp]: "getMBB op \<noteq> Inl NullDereference"
  by (cases op) simp_all

lemma getBlock_not_null [simp]: "getBlock MF b \<noteq> Inl NullDereference"
  by (simp add: getBlock_def)

lemma resolveTarget_not_null [simp]:
  "resolveTarget MF P Inst EqOpc Target \<noteq> Inl NullDereference"
  unfolding resolveTarget_def
  by (cases Target) (auto simp: bindE_eq_Inl)

lemma getCondBranchOperands_not_null [simp]:
  "getCondBranchOperands MF P Inst Reg Imm Target \<noteq> Inl NullDereference"
proof -
  consider (eq) "opcode Inst = BEQ \<or> opcode Inst = BNE"
    | (zero) "opcode Inst = C_BEQZ \<or> opcode Inst = C_BNEZ"
    | (other) "opcode Inst \<noteq> BEQ" "opcode Inst \<noteq> BNE" "opcode Inst \<noteq> C_BEQZ"
        "opcode Inst \<noteq> C_BNEZ"
    by blast
  then show ?thesis
  proof cases
    case eq
    show ?thesis unfolding getCondBranchOperands_eq_form [OF eq]
      by (auto simp: bindE_eq_Inl split: if_splits)
  next
    case zero
    show ?thesis unfolding getCondBranchOperands_zero_form [OF zero]
      by (auto simp: bindE_eq_Inl)
  next
    case other
    then show ?thesis by (simp add: getCondBranchOperands_other_form)
  qed
qed

lemma getLIOperandsCopy_not_null [simp]:
  "getLIOperandsCopy Inst Reg Imm \<noteq> Inl NullDereference"
  unfolding getLIOperandsCopy_def by (auto simp: bindE_eq_Inl split: if_splits)

lemma getLIOperands_not_null [simp]: "getLIOperands Inst Reg Imm \<noteq> Inl NullDereference"
  unfolding getLIOperands_def by (auto simp: bindE_eq_Inl split: if_splits)

lemma checkPredecessors_not_null [simp]:
  "checkPredecessors MF Dst Imm ps \<noteq> Inl NullDereference"
proof (induction ps)
  case Nil
  show ?case by simp
next
  case (Cons p ps)
  have "getBlock MF p \<noteq> Inl NullDereference"
    "getCondBranchOperands MF p (last (insts (MF ! p))) 0 0 None \<noteq> Inl NullDereference"
    by simp_all
  with Cons show ?case
    by (auto simp: getBlock_eq_Inr split: sum.splits prod.splits)
qed

lemma removeHeadAssign_Some_not_null:
  "removeHeadAssign MF Reg Imm (Some t) \<noteq> Inl NullDereference"
  unfolding removeHeadAssign_def
  by (auto simp: bindE_eq_Inl split: if_splits prod.splits)

lemma removeHeadAssign_null [simp]: "removeHeadAssign MF Reg Imm None = Inl NullDereference"
  by (simp add: removeHeadAssign_def)

text \<open>
  What the transform tests before it erases.  Let block \<open>b\<close> be non-empty and end in a
  conditional branch that the recognizer accepts as testing \<open>(Reg, Imm)\<close> with the "equal"
  outcome resolved to a block \<open>t\<close> of the function.  The first instruction of \<open>t\<close> is
  erased exactly when \<open>t\<close> is non-empty, that instruction assigns \<open>Imm\<close> to \<open>Reg\<close>, and
  each predecessor of \<open>t\<close> is empty or ends in a conditional branch on which the
  recognizer, called with a null target, yields the same \<open>(Reg, Imm)\<close>.
\<close>

lemma eliminateAssignAfterBranchTest_test:
  assumes valid: "b < length MF"
    and nonempty: "insts (MF ! b) \<noteq> []"
    and br: "isConditionalBranch (last (insts (MF ! b)))"
    and rec: "getCondBranchOperands MF b (last (insts (MF ! b))) 0 0 (Some None)
                = Inr (True, Reg, Imm, Some (Some t))"
    and t: "t < length MF"
  shows "(eliminateAssignAfterBranchTest MF b
            = Inr (True, MF[t := (MF ! t)\<lparr>insts := tl (insts (MF ! t))\<rparr>])
          \<longleftrightarrow> insts (MF ! t) \<noteq> []
              \<and> getLIOperands (hd (insts (MF ! t))) 0 0 = Inr (True, Reg, Imm)
              \<and> list_all (predecessorAccepts MF Reg Imm) (predecessors (MF ! t)))
         \<and> (\<forall>ch MF'. eliminateAssignAfterBranchTest MF b = Inr (ch, MF') \<longrightarrow>
               (ch \<longleftrightarrow> insts (MF ! t) \<noteq> []
                        \<and> getLIOperands (hd (insts (MF ! t))) 0 0 = Inr (True, Reg, Imm)
                        \<and> list_all (predecessorAccepts MF Reg Imm) (predecessors (MF ! t)))
               \<and> MF' = (if ch then MF[t := (MF ! t)\<lparr>insts := tl (insts (MF ! t))\<rparr>] else MF))"
proof -
  have eq: "eliminateAssignAfterBranchTest MF b = removeHeadAssign MF Reg Imm (Some t)"
    by (rule eliminateAssign_recognized [OF valid nonempty br rec])
  have cp: "\<And>ok. checkPredecessors MF Reg Imm (predecessors (MF ! t)) = Inr ok \<Longrightarrow>
              ok = list_all (predecessorAccepts MF Reg Imm) (predecessors (MF ! t))"
    using checkPredecessors_True_iff [of MF Reg Imm "predecessors (MF ! t)"] by (case_tac ok) auto
  show ?thesis
  proof (intro conjI allI impI)
    show "eliminateAssignAfterBranchTest MF b
            = Inr (True, MF[t := (MF ! t)\<lparr>insts := tl (insts (MF ! t))\<rparr>])
          \<longleftrightarrow> insts (MF ! t) \<noteq> []
              \<and> getLIOperands (hd (insts (MF ! t))) 0 0 = Inr (True, Reg, Imm)
              \<and> list_all (predecessorAccepts MF Reg Imm) (predecessors (MF ! t))"
      unfolding eq removeHeadAssign_result
      using t checkPredecessors_True_iff [of MF Reg Imm "predecessors (MF ! t)"]
      by auto
  next
    fix ch MF'
    assume "eliminateAssignAfterBranchTest MF b = Inr (ch, MF')"
    then have r: "removeHeadAssign MF Reg Imm (Some t) = Inr (ch, MF')" by (simp add: eq)
    from r show "ch \<longleftrightarrow> insts (MF ! t) \<noteq> []
                        \<and> getLIOperands (hd (insts (MF ! t))) 0 0 = Inr (True, Reg, Imm)
                        \<and> list_all (predecessorAccepts MF Reg Imm) (predecessors (MF ! t))"
      unfolding removeHeadAssign_result using cp by (auto split: if_splits)
    from r show "MF' = (if ch then MF[t := (MF ! t)\<lparr>insts := tl (insts (MF ! t))\<rparr>] else MF)"
      unfolding removeHeadAssign_result by (auto split: if_splits)
  qed
qed

text \<open>
  Claim C1 says the leading assignment of the target block is removed only if every
  predecessor of the target is non-empty and ends in a recognized conditional branch whose
  "equal" outcome reaches the target with the register and constant of the assignment.
  The code removes the assignment in three functions where a predecessor gives no such
  proof.  In the first, predecessor \<^verbatim>\<open>bb1\<close> is empty, and the loop skips it.  In the
  second, predecessor \<^verbatim>\<open>bb1\<close> ends in \<^verbatim>\<open>bne x10, 5, bb3\<close>: it enters the target
  \<^verbatim>\<open>bb3\<close> when \<^verbatim>\<open>x10\<close> differs from 5, and its "equal" outcome is the fallthrough
  \<^verbatim>\<open>bb2\<close>.  In the third, predecessor \<^verbatim>\<open>bb1\<close> ends in \<^verbatim>\<open>beq x10, x0, bb3\<close> and
  falls into the target \<^verbatim>\<open>bb2\<close> when \<^verbatim>\<open>x10\<close> is not zero; the erased copy from
  \<^verbatim>\<open>x0\<close> was what made \<^verbatim>\<open>x10\<close> zero on that path.
\<close>

theorem removal_despite_unproved_predecessor:
  "eliminateAssignAfterBranchTest emptyPredFn 0
     = Inr (True, emptyPredFn[2 := mkBlock [mkInst PseudoRET [] 0] [0, 1]])
   \<and> predecessors (emptyPredFn ! 2) = [0, 1]
   \<and> insts (emptyPredFn ! 1) = []
   \<and> \<not> specPredecessorProof emptyPredFn 10 5 2 1
   \<and> eliminateAssignAfterBranchTest wrongEdgeFn 0
     = Inr (True, wrongEdgeFn[3 := mkBlock [mkInst PseudoRET [] 0] [0, 1]])
   \<and> predecessors (wrongEdgeFn ! 3) = [0, 1]
   \<and> getCondBranchOperands wrongEdgeFn 1 (last (insts (wrongEdgeFn ! 1))) 0 0 (Some None)
     = Inr (True, 10, 5, Some (Some 2))
   \<and> \<not> specPredecessorProof wrongEdgeFn 10 5 3 1
   \<and> eliminateAssignAfterBranchTest fallIntoTargetFn 0
     = Inr (True, fallIntoTargetFn[2 := mkBlock [mkInst PseudoRET [] 0] [0, 1]])
   \<and> predecessors (fallIntoTargetFn ! 2) = [0, 1]
   \<and> getCondBranchOperands fallIntoTargetFn 1 (last (insts (fallIntoTargetFn ! 1))) 0 0
        (Some None)
     = Inr (True, 10, 0, Some (Some 3))
   \<and> \<not> specPredecessorProof fallIntoTargetFn 10 0 2 1"
  by (simp add: emptyPredFn_def wrongEdgeFn_def fallIntoTargetFn_def specPredecessorProof_def
        peephole_eval)

text \<open>
  Claim C6.  Whenever \<^verbatim>\<open>eliminateAssignAfterBranchTest\<close> reports no change, the
  function it leaves is the function it was given: nothing was inserted or erased.  When it
  reports a change, the loop over the predecessors of the target had run to its end with
  \<^verbatim>\<open>Removable\<close> still set, and the only edit is the erase of the target's first
  instruction.
\<close>

theorem eliminateAssignAfterBranchTest_unchanged:
  "eliminateAssignAfterBranchTest MF b = Inr (ch, MF') \<Longrightarrow>
     (\<not> ch \<longrightarrow> MF' = MF)
     \<and> (ch \<longrightarrow> (\<exists>t Reg Imm. t < length MF \<and> insts (MF ! t) \<noteq> []
                  \<and> getLIOperands (hd (insts (MF ! t))) 0 0 = Inr (True, Reg, Imm)
                  \<and> checkPredecessors MF Reg Imm (predecessors (MF ! t)) = Inr True
                  \<and> MF' = MF[t := (MF ! t)\<lparr>insts := tl (insts (MF ! t))\<rparr>]))"
proof -
  assume res: "eliminateAssignAfterBranchTest MF b = Inr (ch, MF')"
  from eliminateAssign_Inr_cases [OF res] show ?thesis
  proof
    assume "\<not> ch \<and> MF' = MF"
    then show ?thesis by simp
  next
    assume "\<exists>Reg Imm t. b < length MF \<and> insts (MF ! b) \<noteq> []
            \<and> isConditionalBranch (last (insts (MF ! b)))
            \<and> getCondBranchOperands MF b (last (insts (MF ! b))) 0 0 (Some None)
                = Inr (True, Reg, Imm, Some (Some t))
            \<and> removeHeadAssign MF Reg Imm (Some t) = Inr (ch, MF')"
    then obtain Reg Imm t where "removeHeadAssign MF Reg Imm (Some t) = Inr (ch, MF')"
      by blast
    then show ?thesis
      unfolding removeHeadAssign_result
      by (cases ch) (auto split: if_splits)
  qed
qed

theorem eliminateAssignAfterBranchTest_unchanged_witness:
  "eliminateAssignAfterBranchTest jumpPredFn 0 = Inr (False, jumpPredFn)
   \<and> eliminateAssignAfterBranchTest branchTestFn 0
        = Inr (True, branchTestFn[2 := (branchTestFn ! 2)\<lparr>insts := tl (insts (branchTestFn ! 2))\<rparr>])
   \<and> checkPredecessors branchTestFn 10 5 (predecessors (branchTestFn ! 2)) = Inr True
   \<and> checkPredecessors jumpPredFn 10 5 (predecessors (jumpPredFn ! 2)) = Inr False"
  using eliminateAssignAfterBranchTest_unchanged [of jumpPredFn 0 False jumpPredFn]
    eliminateAssignAfterBranchTest_unchanged [of branchTestFn 0 True
      "branchTestFn[2 := (branchTestFn ! 2)\<lparr>insts := tl (insts (branchTestFn ! 2))\<rparr>]"]
  by (simp add: branchTestFn_def jumpPredFn_def peephole_eval)

text \<open>
  Claim C8.  \<^verbatim>\<open>eliminateAssignAfterBranchTest\<close> dereferences the target block the
  recognizer resolved without testing it for null.  It dereferences a null pointer only on
  a block whose last instruction is a \<^verbatim>\<open>BNE\<close> or \<^verbatim>\<open>C_BNEZ\<close> and that has no
  fallthrough successor; so when every such block has a fallthrough, the null case is
  never reached.  Conversely, on a block that ends in a \<^verbatim>\<open>BNE\<close> or \<^verbatim>\<open>C_BNEZ\<close>
  the recognizer accepts, the null dereference happens exactly when the block has no
  fallthrough.
\<close>

theorem eliminateAssignAfterBranchTest_null_target:
  "(eliminateAssignAfterBranchTest MF b = Inl NullDereference \<longrightarrow>
      b < length MF \<and> insts (MF ! b) \<noteq> []
      \<and> (opcode (last (insts (MF ! b))) = BNE \<or> opcode (last (insts (MF ! b))) = C_BNEZ)
      \<and> getFallThrough MF b = None)
   \<and> (b < length MF \<and> insts (MF ! b) \<noteq> []
      \<and> (opcode (last (insts (MF ! b))) = BNE \<or> opcode (last (insts (MF ! b))) = C_BNEZ)
      \<and> getCondBranchOperands MF b (last (insts (MF ! b))) 0 0 (Some None)
           = Inr (True, Reg, Imm, T')
      \<longrightarrow> (eliminateAssignAfterBranchTest MF b = Inl NullDereference
             \<longleftrightarrow> getFallThrough MF b = None))"
proof -
  have only_null_fallthrough: "eliminateAssignAfterBranchTest MF b = Inl NullDereference \<longrightarrow>
      b < length MF \<and> insts (MF ! b) \<noteq> []
      \<and> (opcode (last (insts (MF ! b))) = BNE \<or> opcode (last (insts (MF ! b))) = C_BNEZ)
      \<and> getFallThrough MF b = None"
  proof (rule impI)
  assume null: "eliminateAssignAfterBranchTest MF b = Inl NullDereference"
  have valid: "b < length MF"
    using null eliminateAssign_dangling [of b MF] by (cases "b < length MF") simp_all
  have shape: "insts (MF ! b) \<noteq> [] \<and> isConditionalBranch (last (insts (MF ! b)))"
    using null eliminateAssign_no_branch [OF valid] by (cases "insts (MF ! b) = []") auto
  then have nonempty: "insts (MF ! b) \<noteq> []"
    and br: "isConditionalBranch (last (insts (MF ! b)))" by simp_all
  let ?L = "last (insts (MF ! b))"
  from null obtain Res R I Target
    where rec: "getCondBranchOperands MF b ?L 0 0 (Some None) = Inr (Res, R, I, Target)"
      and rest: "(if \<not> Res then Inr (False, MF)
                  else removeHeadAssign MF R I (case Target of None \<Rightarrow> None | Some p \<Rightarrow> p))
                 = Inl NullDereference"
    unfolding eliminateAssign_branch_form [OF valid nonempty br]
    by (auto simp: bindE_eq_Inl)
  from rest have Res: Res by (cases Res) simp_all
  with rec have rec': "getCondBranchOperands MF b ?L 0 0 (Some None) = Inr (True, R, I, Target)"
    by simp
  from requested_Target_written [OF rec'] obtain T where T: "Target = Some T" by blast
  from rest Res T have "removeHeadAssign MF R I T = Inl NullDereference" by simp
  then have Tnull: "T = None"
    using removeHeadAssign_Some_not_null [of MF R I] by (cases T) auto
  from getCondBranchOperands_True_opcode [OF rec']
  consider (eq) "opcode ?L = BEQ \<or> opcode ?L = BNE"
    | (zero) "opcode ?L = C_BEQZ \<or> opcode ?L = C_BNEZ"
    by blast
  then have "(opcode ?L = BNE \<or> opcode ?L = C_BNEZ) \<and> getFallThrough MF b = None"
  proof cases
    case eq
    from BEQ_BNE_result [OF eq rec'] T Tnull eq show ?thesis
      by (auto simp: resolveTarget_Some_Inr split: if_splits)
  next
    case zero
    from C_BEQZ_C_BNEZ_result [OF zero rec'] T Tnull zero show ?thesis
      by (auto simp: resolveTarget_Some_Inr split: if_splits)
  qed
  with valid nonempty
  show "b < length MF \<and> insts (MF ! b) \<noteq> []
      \<and> (opcode (last (insts (MF ! b))) = BNE \<or> opcode (last (insts (MF ! b))) = C_BNEZ)
      \<and> getFallThrough MF b = None" by simp
  qed
  have null_iff: "b < length MF \<and> insts (MF ! b) \<noteq> []
      \<and> (opcode (last (insts (MF ! b))) = BNE \<or> opcode (last (insts (MF ! b))) = C_BNEZ)
      \<and> getCondBranchOperands MF b (last (insts (MF ! b))) 0 0 (Some None)
           = Inr (True, Reg, Imm, T')
      \<longrightarrow> (eliminateAssignAfterBranchTest MF b = Inl NullDereference
             \<longleftrightarrow> getFallThrough MF b = None)"
  proof (rule impI)
  assume pre: "b < length MF \<and> insts (MF ! b) \<noteq> []
      \<and> (opcode (last (insts (MF ! b))) = BNE \<or> opcode (last (insts (MF ! b))) = C_BNEZ)
      \<and> getCondBranchOperands MF b (last (insts (MF ! b))) 0 0 (Some None)
           = Inr (True, Reg, Imm, T')"
  let ?L = "last (insts (MF ! b))"
  from pre have valid: "b < length MF" and nonempty: "insts (MF ! b) \<noteq> []"
    and opc: "opcode ?L = BNE \<or> opcode ?L = C_BNEZ"
    and rec: "getCondBranchOperands MF b ?L 0 0 (Some None) = Inr (True, Reg, Imm, T')"
    by simp_all
  from opc have br: "isConditionalBranch ?L"
    by (auto simp: isConditionalBranch_def)
  have T': "T' = Some (getFallThrough MF b)"
  proof -
    from opc consider (ne) "opcode ?L = BNE" | (nez) "opcode ?L = C_BNEZ" by blast
    then show ?thesis
    proof cases
      case ne
      then have "opcode ?L = BEQ \<or> opcode ?L = BNE" by simp
      from BEQ_BNE_result [OF this rec] ne show ?thesis
        by (simp add: resolveTarget_Some_Inr)
    next
      case nez
      then have "opcode ?L = C_BEQZ \<or> opcode ?L = C_BNEZ" by simp
      from C_BEQZ_C_BNEZ_result [OF this rec] nez show ?thesis
        by (simp add: resolveTarget_Some_Inr)
    qed
  qed
  have eq: "eliminateAssignAfterBranchTest MF b = removeHeadAssign MF Reg Imm (getFallThrough MF b)"
    using eliminateAssign_recognized [OF valid nonempty br] rec T' by simp
  show "eliminateAssignAfterBranchTest MF b = Inl NullDereference
             \<longleftrightarrow> getFallThrough MF b = None"
    unfolding eq using removeHeadAssign_Some_not_null [of MF Reg Imm]
    by (cases "getFallThrough MF b") auto
  qed
  show ?thesis by (intro conjI only_null_fallthrough null_iff)
qed

theorem eliminateAssignAfterBranchTest_null_target_witness:
  "eliminateAssignAfterBranchTest bneLastFn 0 = Inl NullDereference
   \<and> (0::nat) < length bneLastFn \<and> insts (bneLastFn ! 0) \<noteq> []
   \<and> opcode (last (insts (bneLastFn ! 0))) = BNE
   \<and> getCondBranchOperands bneLastFn 0 (last (insts (bneLastFn ! 0))) 0 0 (Some None)
        = Inr (True, 10, 5, Some None)
   \<and> getFallThrough bneLastFn 0 = None
   \<and> (1::nat) < length wrongEdgeFn \<and> insts (wrongEdgeFn ! 1) \<noteq> []
   \<and> opcode (last (insts (wrongEdgeFn ! 1))) = BNE
   \<and> getCondBranchOperands wrongEdgeFn 1 (last (insts (wrongEdgeFn ! 1))) 0 0 (Some None)
        = Inr (True, 10, 5, Some (Some 2))
   \<and> getFallThrough wrongEdgeFn 1 = Some 2
   \<and> eliminateAssignAfterBranchTest wrongEdgeFn 1 = Inr (False, wrongEdgeFn)"
  using eliminateAssignAfterBranchTest_null_target [of bneLastFn 0 10 5 "Some None"]
    eliminateAssignAfterBranchTest_null_target [of wrongEdgeFn 1 10 5 "Some (Some 2)"]
  by (simp add: bneLastFn_def wrongEdgeFn_def peephole_eval)

end
